theory Spec2Isabelle
  imports Main "HOL-Library.Word"
begin

unbundle bit_operations_syntax

section \<open>Errors (package errors)\<close>

text \<open>
  A Go \<^verbatim>\<open>error\<close> is a nilable interface value: it is modelled as \<open>err option\<close>, with
  \<open>None\<close> for \<^verbatim>\<open>nil\<close>. The package forwards every call to the cockroachdb errors
  library, whose results are cause chains: a leaf at the bottom and one node for each
  wrapping call above it. The chain is the datatype \<open>err\<close>; the node of each library call
  is a \<open>layer\<close>. Error values created outside the package (by the ORM, a database
  driver, a cache backend) are of the type \<open>foreign\<close>: the sentinel
  \<^verbatim>\<open>gorm.ErrRecordNotFound\<close>, which the repository compares with \<^verbatim>\<open>==\<close>, and
  every other foreign error value, named by its message. In a chain they are leaves.
\<close>

datatype fmt_arg = ArgUint "64 word" | ArgInt "64 word" | ArgString string

datatype layer =
    LWrap string
  | LWrapf string "fmt_arg list"
  | LWithStack
  | LWithMessage string
  | LWithMessagef string "fmt_arg list"
  | LWithHint string
  | LWithHintf string "fmt_arg list"
  | LWithDetail string
  | LWithDetailf string "fmt_arg list"

datatype foreign = GormErrRecordNotFound | OtherError string

datatype err =
    LeafError string
  | Foreign foreign
  | Wrapped layer err

definition New :: "string \<Rightarrow> err option" where
  "New msg = Some (LeafError msg)"

text \<open>The message of \<^verbatim>\<open>ErrNotFound\<close> is a UTF-8 string literal of five CJK characters;
  Go strings are byte sequences, and so is the model's.\<close>

definition ErrNotFound :: "err option" where
  "ErrNotFound = New [CHR 0xE8, CHR 0xB5, CHR 0x84, CHR 0xE6, CHR 0xBA, CHR 0x90,
                      CHR 0xE4, CHR 0xB8, CHR 0x8D, CHR 0xE5, CHR 0xAD, CHR 0x98,
                      CHR 0xE5, CHR 0x9C, CHR 0xA8]"

definition gorm_ErrRecordNotFound :: "foreign option" where
  "gorm_ErrRecordNotFound = Some GormErrRecordNotFound"

definition Wrap :: "err option \<Rightarrow> string \<Rightarrow> err option" where
  "Wrap e msg = (case e of None \<Rightarrow> None | Some c \<Rightarrow> Some (Wrapped (LWrap msg) c))"

definition Wrapf :: "err option \<Rightarrow> string \<Rightarrow> fmt_arg list \<Rightarrow> err option" where
  "Wrapf e format args =
     (case e of None \<Rightarrow> None | Some c \<Rightarrow> Some (Wrapped (LWrapf format args) c))"

definition WithStack :: "err option \<Rightarrow> err option" where
  "WithStack e = (case e of None \<Rightarrow> None | Some c \<Rightarrow> Some (Wrapped LWithStack c))"

definition WithMessage :: "err option \<Rightarrow> string \<Rightarrow> err option" where
  "WithMessage e msg =
     (case e of None \<Rightarrow> None | Some c \<Rightarrow> Some (Wrapped (LWithMessage msg) c))"

definition WithMessagef :: "err option \<Rightarrow> string \<Rightarrow> fmt_arg list \<Rightarrow> err option" where
  "WithMessagef e format args =
     (case e of None \<Rightarrow> None | Some c \<Rightarrow> Some (Wrapped (LWithMessagef format args) c))"

definition WithHint :: "err option \<Rightarrow> string \<Rightarrow> err option" where
  "WithHint e hint =
     (case e of None \<Rightarrow> None | Some c \<Rightarrow> Some (Wrapped (LWithHint hint) c))"

definition WithHintf :: "err option \<Rightarrow> string \<Rightarrow> fmt_arg list \<Rightarrow> err option" where
  "WithHintf e format args =
     (case e of None \<Rightarrow> None | Some c \<Rightarrow> Some (Wrapped (LWithHintf format args) c))"

definition WithDetail :: "err option \<Rightarrow> string \<Rightarrow> err option" where
  "WithDetail e detail =
     (case e of None \<Rightarrow> None | Some c \<Rightarrow> Some (Wrapped (LWithDetail detail) c))"

definition WithDetailf :: "err option \<Rightarrow> string \<Rightarrow> fmt_arg list \<Rightarrow> err option" where
  "WithDetailf e format args =
     (case e of None \<Rightarrow> None | Some c \<Rightarrow> Some (Wrapped (LWithDetailf format args) c))"

text \<open>
  \<^verbatim>\<open>Is\<close> forwards to the library's \<^verbatim>\<open>errors.Is\<close>, which walks the cause chain of its
  first argument and answers whether some node of it is the reference error; a
  \<^verbatim>\<open>nil\<close> reference matches the \<^verbatim>\<open>nil\<close> error only. The library takes a node for
  the reference when it is the same value or carries the same mark (its message and the
  types of its chain); the model compares nodes as values. The two agree where the
  reference is one of the package's own sentinel errors, a leaf, and the chain ends in
  that leaf or in a foreign error, which is how \<^verbatim>\<open>Is\<close> is used here.
\<close>

fun is_in_chain :: "err \<Rightarrow> err \<Rightarrow> bool" where
  "is_in_chain (Wrapped l c) r = (Wrapped l c = r \<or> is_in_chain c r)"
| "is_in_chain c r = (c = r)"

definition Is :: "err option \<Rightarrow> err option \<Rightarrow> bool" where
  "Is e target =
     (case target of
        None \<Rightarrow> e = None
      | Some r \<Rightarrow> (case e of None \<Rightarrow> False | Some c \<Rightarrow> is_in_chain c r))"

section \<open>Cache facade (package cache)\<close>

text \<open>
  The facade holds a \<^verbatim>\<open>cache.CacheInterface[string]\<close> of the gocache library. The
  backend is a parameter of the model: a record of transition functions on a backend
  state \<open>'s\<close>, each returning the new state and the Go result pair. A
  \<^verbatim>\<open>time.Duration\<close> is an \<^verbatim>\<open>int64\<close>.

  The callback of \<^verbatim>\<open>Remember\<close> is a Go closure; it may have effects of its own, so it
  is a transition on an environment \<open>'w\<close>. The world threaded through the facade is the
  backend state, the callback's environment, and the sequence of calls made so far
  (\<open>trace\<close>), which is what the properties about "how often" and "no write" speak about.
\<close>

type_synonym duration = "64 word"

record 's manager =
  mgr_get :: "'s \<Rightarrow> string \<Rightarrow> 's \<times> (string \<times> err option)"
  mgr_set :: "'s \<Rightarrow> string \<Rightarrow> string \<Rightarrow> duration \<Rightarrow> 's \<times> err option"
  mgr_delete :: "'s \<Rightarrow> string \<Rightarrow> 's \<times> err option"
  mgr_clear :: "'s \<Rightarrow> 's \<times> err option"

datatype event = EvGet string | EvSet string string duration | EvCallback

record ('s, 'w) world =
  store :: 's
  env :: 'w
  trace :: "event list"

type_synonym 'w callback = "'w \<Rightarrow> 'w \<times> (string \<times> err option)"

definition manager_Get ::
  "'s manager \<Rightarrow> string \<Rightarrow> ('s, 'w) world \<Rightarrow> ('s, 'w) world \<times> (string \<times> err option)" where
  "manager_Get m key w =
     (let (s', r) = mgr_get m (store w) key
      in (w\<lparr>store := s', trace := trace w @ [EvGet key]\<rparr>, r))"

definition manager_Set ::
  "'s manager \<Rightarrow> string \<Rightarrow> string \<Rightarrow> duration \<Rightarrow> ('s, 'w) world \<Rightarrow> ('s, 'w) world \<times> err option" where
  "manager_Set m key val ttl w =
     (let (s', e) = mgr_set m (store w) key val ttl
      in (w\<lparr>store := s', trace := trace w @ [EvSet key val ttl]\<rparr>, e))"

definition call :: "'w callback \<Rightarrow> ('s, 'w) world \<Rightarrow> ('s, 'w) world \<times> (string \<times> err option)" where
  "call callback w =
     (let (w', r) = callback (env w)
      in (w\<lparr>env := w', trace := trace w @ [EvCallback]\<rparr>, r))"

definition CacheFacade_Get ::
  "'s manager \<Rightarrow> string \<Rightarrow> ('s, 'w) world \<Rightarrow> ('s, 'w) world \<times> (string \<times> err option)" where
  "CacheFacade_Get m key w =
     (let (w1, (val, e)) = manager_Get m key w
      in if e \<noteq> None then (w1, ('''', e)) else (w1, (val, None)))"

definition CacheFacade_Set ::
  "'s manager \<Rightarrow> string \<Rightarrow> string \<Rightarrow> duration \<Rightarrow> ('s, 'w) world \<Rightarrow> ('s, 'w) world \<times> err option" where
  "CacheFacade_Set m key val ttl w = manager_Set m key val ttl w"

definition CacheFacade_Remember ::
  "'s manager \<Rightarrow> string \<Rightarrow> duration \<Rightarrow> 'w callback \<Rightarrow> ('s, 'w) world
     \<Rightarrow> ('s, 'w) world \<times> (string \<times> err option)" where
  "CacheFacade_Remember m key ttl callback w =
     (let (w1, (val, e)) = CacheFacade_Get m key w
      in if e = None then (w1, (val, None))
         else
           let (w2, (val, e)) = call callback w1
           in if e \<noteq> None then (w2, ('''', e))
              else
                let (w3, _) = CacheFacade_Set m key val ttl w2
                in (w3, (val, None)))"

definition callbacks :: "event list \<Rightarrow> nat" where
  "callbacks evs = length (filter (\<lambda>ev. ev = EvCallback) evs)"

fun is_write :: "event \<Rightarrow> bool" where
  "is_write (EvSet k v t) = True"
| "is_write ev = False"

text \<open>
  A backend for concrete runs: an in-memory table from keys to values that never expires
  an entry. A read of an absent key fails; \<open>fail_set\<close> makes every write fail and store
  nothing.
\<close>

definition table_manager :: "bool \<Rightarrow> (string \<Rightarrow> string option) manager" where
  "table_manager fail_set =
     \<lparr> mgr_get = (\<lambda>s key. case s key of
                     None \<Rightarrow> (s, ('''', Some (Foreign (OtherError ''value not found in store''))))
                   | Some v \<Rightarrow> (s, (v, None))),
       mgr_set = (\<lambda>s key val ttl.
                     if fail_set then (s, Some (Foreign (OtherError ''store is read-only'')))
                     else (s(key \<mapsto> val), None)),
       mgr_delete = (\<lambda>s key. (s(key := None), None)),
       mgr_clear = (\<lambda>s. (Map.empty, None)) \<rparr>"

text \<open>A callback that counts its own invocations and produces \<open>''v''\<close> followed by the
  number of the call.\<close>

definition counting_callback :: "nat callback" where
  "counting_callback n = (Suc n, (''v'' @ replicate n CHR ''+'', None))"

definition failing_callback :: "nat callback" where
  "failing_callback n = (Suc n, (''partial'', Some (Foreign (OtherError ''compute failed''))))"

definition w_empty :: "(string \<Rightarrow> string option, nat) world" where
  "w_empty = \<lparr> store = Map.empty, env = 0, trace = [] \<rparr>"

section \<open>The Demo model and the ORM\<close>

text \<open>
  \<^verbatim>\<open>model.Demo\<close>. Go's \<^verbatim>\<open>uint\<close> and \<^verbatim>\<open>int\<close> are 64-bit words (a 64-bit platform); a
  \<^verbatim>\<open>time.Time\<close> is an instant counted in ticks, the zero time being \<open>0\<close>.
\<close>

record Demo =
  ID :: "64 word"
  Title :: string
  Content :: string
  Status :: "64 word"
  CreatedAt :: nat
  UpdatedAt :: nat

definition Demo_zero :: Demo where
  "Demo_zero = \<lparr> ID = 0, Title = '''', Content = '''', Status = 0, CreatedAt = 0, UpdatedAt = 0 \<rparr>"

text \<open>
  The repositories talk to the database through the query builder of the gorm library.
  A chain such as \<^verbatim>\<open>db.Where(q, args...).Offset(o).Limit(n)\<close> builds a statement, and a
  finisher (\<^verbatim>\<open>First\<close>, \<^verbatim>\<open>Find\<close>, \<^verbatim>\<open>Count\<close>, \<^verbatim>\<open>Create\<close>, \<^verbatim>\<open>Save\<close>) runs it. The
  statement is the record \<open>stmt\<close>; the library and the database behind it are a
  parameter: a record of finishers on a database state \<open>'db\<close> and a row type \<open>'r\<close>
  (the repository's \<^verbatim>\<open>interface{}\<close> destinations). A finisher returns the
  \<^verbatim>\<open>Error\<close> field of the result and the destination as the call leaves it; reads do
  not change the database, and a finisher leaves the statement it ran as it was, so
  that \<^verbatim>\<open>Count\<close> can be followed by \<^verbatim>\<open>Offset\<close>, \<^verbatim>\<open>Limit\<close> and \<^verbatim>\<open>Find\<close> on the same
  chain. \<^verbatim>\<open>WithContext\<close> and \<^verbatim>\<open>Model\<close> start a statement with no clause (\<open>Session\<close>).
\<close>

datatype cond = Cond string "fmt_arg list"

record stmt =
  st_where :: "cond list"
  st_offset :: "64 word option"
  st_limit :: "64 word option"

definition Session :: stmt where
  "Session = \<lparr> st_where = [], st_offset = None, st_limit = None \<rparr>"

definition Where :: "stmt \<Rightarrow> string \<Rightarrow> fmt_arg list \<Rightarrow> stmt" where
  "Where st query args = st\<lparr> st_where := st_where st @ [Cond query args] \<rparr>"

definition Offset :: "stmt \<Rightarrow> 64 word \<Rightarrow> stmt" where
  "Offset st n = st\<lparr> st_offset := Some n \<rparr>"

definition Limit :: "stmt \<Rightarrow> 64 word \<Rightarrow> stmt" where
  "Limit st n = st\<lparr> st_limit := Some n \<rparr>"

record ('db, 'r) gorm =
  db_First :: "'db \<Rightarrow> stmt \<Rightarrow> 'r \<Rightarrow> foreign option \<times> 'r"
  db_Find :: "'db \<Rightarrow> stmt \<Rightarrow> 'r list \<Rightarrow> foreign option \<times> 'r list"
  db_Count :: "'db \<Rightarrow> stmt \<Rightarrow> foreign option \<times> 64 word"
  db_Create :: "'db \<Rightarrow> 'r \<Rightarrow> 'db \<times> foreign option \<times> 'r"
  db_Save :: "'db \<Rightarrow> 'r \<Rightarrow> 'db \<times> foreign option \<times> 'r"

text \<open>A foreign error as a value of Go's \<^verbatim>\<open>error\<close> interface.\<close>

definition as_error :: "foreign option \<Rightarrow> err option" where
  "as_error e = (case e of None \<Rightarrow> None | Some f \<Rightarrow> Some (Foreign f))"

section \<open>Generic repository (package database)\<close>

definition BaseRepository_FindByID ::
  "('db, 'r) gorm \<Rightarrow> 'db \<Rightarrow> fmt_arg \<Rightarrow> 'r \<Rightarrow> err option \<times> 'r" where
  "BaseRepository_FindByID orm db ident dest =
     (let (e, dest) = db_First orm db (Where Session ''id = ?'' [ident]) dest
      in if e \<noteq> None then
           (if e = gorm_ErrRecordNotFound then (ErrNotFound, dest)
            else (Wrap (as_error e) ''query by id failed'', dest))
         else (None, dest))"

definition BaseRepository_FindPage ::
  "('db, 'r) gorm \<Rightarrow> 'db \<Rightarrow> 'r list \<Rightarrow> 64 word \<Rightarrow> 64 word \<Rightarrow> (string \<times> fmt_arg list) option
     \<Rightarrow> (64 word \<times> err option) \<times> 'r list" where
  "BaseRepository_FindPage orm db dest page pageSize query =
     (let st = Session;
          st = (case query of None \<Rightarrow> st | Some (q, args) \<Rightarrow> Where st q args);
          (e, total) = db_Count orm db st
      in if e \<noteq> None then ((0, Wrap (as_error e) ''count failed''), dest)
         else
           let offset = (page - 1) * pageSize;
               (e, dest) = db_Find orm db (Limit (Offset st offset) pageSize) dest
           in if e \<noteq> None then ((0, Wrap (as_error e) ''query page failed''), dest)
              else ((total, None), dest))"

definition BaseRepository_Create ::
  "('db, 'r) gorm \<Rightarrow> 'db \<Rightarrow> 'r \<Rightarrow> 'db \<times> err option \<times> 'r" where
  "BaseRepository_Create orm db val =
     (let (db, e, val) = db_Create orm db val
      in if e \<noteq> None then (db, Wrap (as_error e) ''create failed'', val)
         else (db, None, val))"

definition BaseRepository_Update ::
  "('db, 'r) gorm \<Rightarrow> 'db \<Rightarrow> 'r \<Rightarrow> 'db \<times> err option \<times> 'r" where
  "BaseRepository_Update orm db val =
     (let (db, e, val) = db_Save orm db val
      in if e \<noteq> None then (db, Wrap (as_error e) ''update failed'', val)
         else (db, None, val))"

section \<open>Demo repository (package repository)\<close>

text \<open>A result \<^verbatim>\<open>(*model.Demo, error)\<close> is a pair of options, \<open>None\<close> for \<^verbatim>\<open>nil\<close>.\<close>

definition DemoRepository_FindByID ::
  "('db, Demo) gorm \<Rightarrow> 'db \<Rightarrow> 64 word \<Rightarrow> Demo option \<times> err option" where
  "DemoRepository_FindByID orm db ident =
     (let demo = Demo_zero;
          (e, demo) = BaseRepository_FindByID orm db (ArgUint ident) demo
      in if e \<noteq> None then (None, Wrapf e ''demo not found, id: %d'' [ArgUint ident])
         else (Some demo, None))"

definition DemoRepository_Create ::
  "('db, Demo) gorm \<Rightarrow> 'db \<Rightarrow> Demo \<Rightarrow> 'db \<times> err option \<times> Demo" where
  "DemoRepository_Create orm db demo = BaseRepository_Create orm db demo"

definition DemoRepository_Update ::
  "('db, Demo) gorm \<Rightarrow> 'db \<Rightarrow> Demo \<Rightarrow> 'db \<times> err option \<times> Demo" where
  "DemoRepository_Update orm db demo = BaseRepository_Update orm db demo"

section \<open>Demo service (package service)\<close>

text \<open>
  The service logs through the global logger before it returns; the log is not part of
  any result and the model leaves it out. \<^verbatim>\<open>Update\<close> writes through the pointer that
  \<^verbatim>\<open>FindByID\<close> returned; a \<^verbatim>\<open>nil\<close> pointer there is a run-time panic, which the
  model returns as an error value of its own.
\<close>

definition nil_dereference :: "err option" where
  "nil_dereference = Some (LeafError ''runtime error: invalid memory address or nil pointer dereference'')"

definition DemoService_GetByID ::
  "('db, Demo) gorm \<Rightarrow> 'db \<Rightarrow> 64 word \<Rightarrow> Demo option \<times> err option" where
  "DemoService_GetByID orm db ident =
     (let (demo, e) = DemoRepository_FindByID orm db ident
      in if e \<noteq> None then (None, e) else (demo, None))"

definition DemoService_Create ::
  "('db, Demo) gorm \<Rightarrow> 'db \<Rightarrow> Demo \<Rightarrow> 'db \<times> err option \<times> Demo" where
  "DemoService_Create orm db demo =
     (if Title demo = '''' then (db, New ''title cannot be empty'', demo)
      else
        let (db, e, demo) = DemoRepository_Create orm db demo
        in if e \<noteq> None then (db, e, demo) else (db, None, demo))"

definition DemoService_Update ::
  "('db, Demo) gorm \<Rightarrow> 'db \<Rightarrow> 64 word \<Rightarrow> Demo \<Rightarrow> 'db \<times> err option" where
  "DemoService_Update orm db ident demo =
     (let (existing, e) = DemoRepository_FindByID orm db ident
      in if e \<noteq> None then (db, e)
         else
           case existing of
             None \<Rightarrow> (db, nil_dereference)
           | Some existing \<Rightarrow>
               let existing = existing\<lparr> Title := Title demo \<rparr>;
                   existing = existing\<lparr> Content := Content demo \<rparr>;
                   existing = existing\<lparr> Status := Status demo \<rparr>;
                   (db, e, existing) = DemoRepository_Update orm db existing
               in if e \<noteq> None then (db, e) else (db, None))"

section \<open>Web context and response envelope (package web)\<close>

text \<open>
  \<^verbatim>\<open>web.Context\<close> embeds the request context of the gin library. The model keeps what
  the handlers read and write: the request method, the request headers, the path
  parameters, the decoded JSON body (or the decoder's error message), and the response
  headers, status and body, with the flag that \<^verbatim>\<open>Abort\<close> sets. Header names are the
  canonical ones the source already uses. \<^verbatim>\<open>GetHeader\<close> and \<^verbatim>\<open>Param\<close> give the empty
  string for an absent name; \<^verbatim>\<open>Header\<close> with an empty value removes the header.

  \<^verbatim>\<open>Next\<close> runs the handlers that are still pending, in order, and stops as soon as
  the context is aborted.
\<close>

datatype payload = DataNil | DataDemo Demo | DataDemos "Demo list"

record Response =
  Code :: int
  Message :: string
  Data :: payload

record CreateRequest =
  req_Title :: string
  req_Content :: string
  req_Status :: "64 word"

record Context =
  Method :: string
  RequestHeader :: "string \<Rightarrow> string option"
  Params :: "string \<Rightarrow> string option"
  Body :: "string + CreateRequest"
  ResponseHeader :: "string \<Rightarrow> string option"
  ResponseStatus :: "nat option"
  ResponseBody :: "Response option"
  Aborted :: bool

type_synonym HandlerFunc = "Context \<Rightarrow> Context"

definition GetHeader :: "Context \<Rightarrow> string \<Rightarrow> string" where
  "GetHeader ctx key = (case RequestHeader ctx key of None \<Rightarrow> '''' | Some v \<Rightarrow> v)"

definition Param :: "Context \<Rightarrow> string \<Rightarrow> string" where
  "Param ctx key = (case Params ctx key of None \<Rightarrow> '''' | Some v \<Rightarrow> v)"

definition Header :: "Context \<Rightarrow> string \<Rightarrow> string \<Rightarrow> Context" where
  "Header ctx key val =
     (if val = '''' then ctx\<lparr> ResponseHeader := (ResponseHeader ctx)(key := None) \<rparr>
      else ctx\<lparr> ResponseHeader := (ResponseHeader ctx)(key \<mapsto> val) \<rparr>)"

definition AbortWithStatus :: "Context \<Rightarrow> nat \<Rightarrow> Context" where
  "AbortWithStatus ctx code = ctx\<lparr> ResponseStatus := Some code, Aborted := True \<rparr>"

fun Next :: "HandlerFunc list \<Rightarrow> Context \<Rightarrow> Context" where
  "Next [] ctx = ctx"
| "Next (h # hs) ctx = (if Aborted ctx then ctx else Next hs (h ctx))"

definition JSON :: "Context \<Rightarrow> nat \<Rightarrow> Response \<Rightarrow> Context" where
  "JSON ctx code obj = ctx\<lparr> ResponseStatus := Some code, ResponseBody := Some obj \<rparr>"

text \<open>
  \<^verbatim>\<open>ShouldBindJSON\<close> decodes the body into the request struct and then validates its
  \<^verbatim>\<open>binding:"required"\<close> tag: the title must not be the empty string. It returns the
  message of its error, \<open>None\<close> for \<^verbatim>\<open>nil\<close>.
\<close>

definition required_failed :: string where
  "required_failed = ''Key: '' @ [CHR 0x27] @ ''CreateRequest.Title'' @ [CHR 0x27]
     @ '' Error:Field validation for '' @ [CHR 0x27] @ ''Title'' @ [CHR 0x27]
     @ '' failed on the '' @ [CHR 0x27] @ ''required'' @ [CHR 0x27] @ '' tag''"

definition ShouldBindJSON :: "Context \<Rightarrow> string option \<times> CreateRequest" where
  "ShouldBindJSON ctx =
     (case Body ctx of
        Inl msg \<Rightarrow> (Some msg, \<lparr> req_Title = '''', req_Content = '''', req_Status = 0 \<rparr>)
      | Inr req \<Rightarrow> if req_Title req = '''' then (Some required_failed, req) else (None, req))"

definition Success :: "Context \<Rightarrow> payload \<Rightarrow> Context" where
  "Success c data = JSON c 200 \<lparr> Code = 200, Message = ''success'', Data = data \<rparr>"

definition SuccessWithMessage :: "Context \<Rightarrow> string \<Rightarrow> payload \<Rightarrow> Context" where
  "SuccessWithMessage c message data =
     JSON c 200 \<lparr> Code = 200, Message = message, Data = data \<rparr>"

definition BadRequest :: "Context \<Rightarrow> string \<Rightarrow> Context" where
  "BadRequest c message = JSON c 400 \<lparr> Code = 400, Message = message, Data = DataNil \<rparr>"

definition NotFound :: "Context \<Rightarrow> string \<Rightarrow> Context" where
  "NotFound c message = JSON c 404 \<lparr> Code = 404, Message = message, Data = DataNil \<rparr>"

definition InternalError :: "Context \<Rightarrow> string \<Rightarrow> Context" where
  "InternalError c message = JSON c 500 \<lparr> Code = 500, Message = message, Data = DataNil \<rparr>"

section \<open>Demo controller (package controller)\<close>

text \<open>
  \<^verbatim>\<open>strconv.ParseUint(s, 10, 32)\<close>: a non-empty string of decimal digits whose value is
  below \<open>2^32\<close>; anything else is an error (\<open>None\<close>).
\<close>

definition is_digit :: "char \<Rightarrow> bool" where
  "is_digit c = (48 \<le> (of_char c :: nat) \<and> (of_char c :: nat) \<le> 57)"

fun digits_value :: "nat \<Rightarrow> string \<Rightarrow> nat" where
  "digits_value acc [] = acc"
| "digits_value acc (c # cs) = digits_value (acc * 10 + (of_char c - 48)) cs"

definition ParseUint32 :: "string \<Rightarrow> nat option" where
  "ParseUint32 s =
     (if s \<noteq> [] \<and> list_all is_digit s \<and> digits_value 0 s < 2 ^ 32
      then Some (digits_value 0 s) else None)"

definition DemoController_GetByID :: "('db, Demo) gorm \<Rightarrow> 'db \<Rightarrow> Context \<Rightarrow> Context" where
  "DemoController_GetByID orm db ctx =
     (let idStr = Param ctx ''id''
      in case ParseUint32 idStr of
           None \<Rightarrow> BadRequest ctx ''invalid id''
         | Some ident \<Rightarrow>
             let (demo, e) = DemoService_GetByID orm db (of_nat ident)
             in if e \<noteq> None then
                  (if Is e ErrNotFound then NotFound ctx ''demo not found''
                   else InternalError ctx ''get demo failed'')
                else Success ctx (case demo of None \<Rightarrow> DataNil | Some d \<Rightarrow> DataDemo d))"

definition DemoController_Create ::
  "('db, Demo) gorm \<Rightarrow> 'db \<Rightarrow> Context \<Rightarrow> 'db \<times> Context" where
  "DemoController_Create orm db ctx =
     (let (e, req) = ShouldBindJSON ctx
      in case e of
           Some msg \<Rightarrow> (db, BadRequest ctx (''invalid request: '' @ msg))
         | None \<Rightarrow>
             let demo = Demo_zero\<lparr> Title := req_Title req, Content := req_Content req,
                                   Status := req_Status req \<rparr>;
                 (db, e, demo) = DemoService_Create orm db demo
             in if e \<noteq> None then (db, InternalError ctx ''create demo failed'')
                else (db, SuccessWithMessage ctx ''demo created successfully'' (DataDemo demo)))"

section \<open>CORS middleware (package middleware)\<close>

record CORSConfig =
  AllowOrigins :: "string list"
  AllowMethods :: "string list"
  AllowHeaders :: "string list"

record CORSMiddleware =
  allowOrigins :: "string list"
  allowMethods :: "string list"
  allowHeaders :: "string list"

definition NewCORSMiddleware :: "CORSConfig option \<Rightarrow> CORSMiddleware" where
  "NewCORSMiddleware config =
     (let config = (case config of
                      None \<Rightarrow> \<lparr> AllowOrigins = [], AllowMethods = [], AllowHeaders = [] \<rparr>
                    | Some c \<Rightarrow> c);
          config = (if length (AllowOrigins config) = 0
                    then config\<lparr> AllowOrigins := [''*''] \<rparr> else config);
          config = (if length (AllowMethods config) = 0
                    then config\<lparr> AllowMethods :=
                           [''GET'', ''POST'', ''PUT'', ''DELETE'', ''PATCH'', ''OPTIONS''] \<rparr>
                    else config);
          config = (if length (AllowHeaders config) = 0
                    then config\<lparr> AllowHeaders :=
                           [''Content-Type'', ''Authorization'', ''X-Request-ID''] \<rparr>
                    else config)
      in \<lparr> allowOrigins = AllowOrigins config, allowMethods = AllowMethods config,
           allowHeaders = AllowHeaders config \<rparr>)"

fun origin_loop :: "string list \<Rightarrow> string \<Rightarrow> bool" where
  "origin_loop [] origin = False"
| "origin_loop (allowed # rest) origin =
     (if allowed = ''*'' \<or> allowed = origin then True else origin_loop rest origin)"

definition isOriginAllowed :: "CORSMiddleware \<Rightarrow> string \<Rightarrow> bool" where
  "isOriginAllowed m origin =
     (if origin = '''' then False else origin_loop (allowOrigins m) origin)"

fun join_loop :: "string \<Rightarrow> string list \<Rightarrow> string" where
  "join_loop result [] = result"
| "join_loop result (a # rest) = join_loop (result @ '', '' @ a) rest"

definition joinStrings :: "string list \<Rightarrow> string" where
  "joinStrings arr = (case arr of [] \<Rightarrow> '''' | a # rest \<Rightarrow> join_loop a rest)"

text \<open>The handler that \<^verbatim>\<open>Handle\<close> returns, with the handlers pending after it.\<close>

definition CORSMiddleware_Handle :: "CORSMiddleware \<Rightarrow> HandlerFunc list \<Rightarrow> Context \<Rightarrow> Context" where
  "CORSMiddleware_Handle m pending ctx =
     (let origin = GetHeader ctx ''Origin'';
          ctx = (if isOriginAllowed m origin
                 then Header ctx ''Access-Control-Allow-Origin'' origin
                 else if length (allowOrigins m) = 1 \<and> allowOrigins m ! 0 = ''*''
                 then Header ctx ''Access-Control-Allow-Origin'' ''*''
                 else ctx);
          ctx = Header ctx ''Access-Control-Allow-Methods'' (joinStrings (allowMethods m));
          ctx = Header ctx ''Access-Control-Allow-Headers'' (joinStrings (allowHeaders m));
          ctx = Header ctx ''Access-Control-Allow-Credentials'' ''true'';
          ctx = Header ctx ''Access-Control-Max-Age'' ''86400''
      in if Method ctx = ''OPTIONS'' then AbortWithStatus ctx 204
         else Next pending ctx)"

section \<open>Checksum (package security)\<close>

text \<open>
  \<^verbatim>\<open>Sha1\<close> feeds the bytes of its argument to the SHA-1 of Go's \<^verbatim>\<open>crypto/sha1\<close> and
  prints the 20-byte digest with \<^verbatim>\<open>fmt.Sprintf("%x", ...)\<close>: two lowercase hexadecimal
  digits for each byte. The digest is the SHA-1 of FIPS 180-4: the message is padded
  with the byte \<open>0x80\<close>, zero bytes, and its length in bits as a 64-bit big-endian
  number, to a multiple of 64 bytes; each block of 64 bytes is expanded to 80 words of
  32 bits and run through 80 rounds on five words of state.
\<close>

type_synonym byte = "8 word"

definition be32 :: "byte list \<Rightarrow> 32 word" where
  "be32 bs = foldl (\<lambda>acc b. push_bit 8 acc OR ucast b) 0 bs"

fun words_of :: "byte list \<Rightarrow> 32 word list" where
  "words_of (a # b # c # d # rest) = be32 [a, b, c, d] # words_of rest"
| "words_of _ = []"

fun blocks_of :: "nat \<Rightarrow> byte list \<Rightarrow> byte list list" where
  "blocks_of 0 bs = []"
| "blocks_of (Suc n) bs = take 64 bs # blocks_of n (drop 64 bs)"

definition bytes_of32 :: "32 word \<Rightarrow> byte list" where
  "bytes_of32 w = [ucast (drop_bit 24 w), ucast (drop_bit 16 w), ucast (drop_bit 8 w), ucast w]"

definition bytes_of64 :: "64 word \<Rightarrow> byte list" where
  "bytes_of64 w = map (\<lambda>i. ucast (drop_bit (56 - 8 * i) w)) [0 ..< 8]"

definition padded :: "byte list \<Rightarrow> byte list" where
  "padded msg = msg @ [0x80] @ replicate ((119 - length msg mod 64) mod 64) 0
                 @ bytes_of64 (of_nat (8 * length msg))"

text \<open>The message schedule, latest word first while it is extended.\<close>

fun expand :: "nat \<Rightarrow> 32 word list \<Rightarrow> 32 word list" where
  "expand 0 r = r"
| "expand (Suc n) r = expand n (word_rotl 1 (r ! 2 XOR r ! 7 XOR r ! 13 XOR r ! 15) # r)"

definition schedule :: "byte list \<Rightarrow> 32 word list" where
  "schedule p = rev (expand 64 (rev (words_of p)))"

type_synonym sha1_state = "32 word \<times> 32 word \<times> 32 word \<times> 32 word \<times> 32 word"

fun rounds :: "nat \<Rightarrow> 32 word list \<Rightarrow> sha1_state \<Rightarrow> sha1_state" where
  "rounds i [] s = s"
| "rounds i (w # ws) (a, b, c, d, e) =
     (let (f, k) = (if i < 20 then ((b AND c) OR (NOT b AND d), 0x5A827999)
                    else if i < 40 then (b XOR c XOR d, 0x6ED9EBA1)
                    else if i < 60 then (((b OR c) AND d) OR (b AND c), 0x8F1BBCDC)
                    else (b XOR c XOR d, 0xCA62C1D6));
          t = word_rotl 5 a + f + e + w + k
      in rounds (Suc i) ws (t, a, word_rotl 30 b, c, d))"

definition block :: "sha1_state \<Rightarrow> byte list \<Rightarrow> sha1_state" where
  "block h p =
     (case h of (h0, h1, h2, h3, h4) \<Rightarrow>
        (case rounds 0 (schedule p) h of (a, b, c, d, e) \<Rightarrow>
           (h0 + a, h1 + b, h2 + c, h3 + d, h4 + e)))"

definition sha1_Sum :: "byte list \<Rightarrow> byte list" where
  "sha1_Sum msg =
     (case foldl block (0x67452301, 0xEFCDAB89, 0x98BADCFE, 0x10325476, 0xC3D2E1F0)
             (blocks_of (length (padded msg) div 64) (padded msg)) of
        (h0, h1, h2, h3, h4) \<Rightarrow>
          bytes_of32 h0 @ bytes_of32 h1 @ bytes_of32 h2 @ bytes_of32 h3 @ bytes_of32 h4)"

definition hex_digit :: "nat \<Rightarrow> char" where
  "hex_digit n = ''0123456789abcdef'' ! n"

fun hex :: "byte list \<Rightarrow> string" where
  "hex [] = []"
| "hex (b # bs) = hex_digit (unat b div 16) # hex_digit (unat b mod 16) # hex bs"

definition Sha1 :: "string \<Rightarrow> string" where
  "Sha1 data = hex (sha1_Sum (map of_char data))"

definition ValidateCheckSum :: "string \<Rightarrow> string \<Rightarrow> string \<Rightarrow> string \<Rightarrow> bool" where
  "ValidateCheckSum checksum timestamp nonce secret =
     (let calculatedSum = Sha1 (secret @ nonce @ timestamp)
      in calculatedSum = checksum)"

text \<open>
  For running the digest on concrete messages: \<open>norm32\<close> is the identity on 32-bit
  words, written through the word's integer, so that the simplifier brings a numeral
  back below \<open>2^32\<close> after each step.
\<close>

definition norm32 :: "32 word \<Rightarrow> 32 word" where
  "norm32 x = word_of_int (uint x)"

section \<open>An in-memory database for concrete runs\<close>

text \<open>
  A table of Demo rows in insertion order behind the finishers of \<open>gorm\<close>, for running
  the layers on concrete inputs. It understands the two conditions the Demo repository
  sends (\<^verbatim>\<open>id = ?\<close> and \<^verbatim>\<open>1 = 1\<close>); any other condition matches no row. As the library
  does, \<^verbatim>\<open>First\<close> reports \<^verbatim>\<open>gorm.ErrRecordNotFound\<close> when no row matches, an offset
  is applied when it is positive and a limit when it is not negative, and \<^verbatim>\<open>Create\<close>
  assigns the next ID and the timestamps and stores the default 1 of the model's
  \<^verbatim>\<open>default:1\<close> tag for a zero status. When \<open>fault\<close> is set, every statement fails
  with that error and changes nothing.
\<close>

record mem_db =
  rows :: "Demo list"
  next_id :: "64 word"
  clock :: nat
  fault :: "foreign option"

fun matches :: "cond \<Rightarrow> Demo \<Rightarrow> bool" where
  "matches (Cond q args) d =
     (if q = ''id = ?'' then (case args of [ArgUint i] \<Rightarrow> ID d = i | _ \<Rightarrow> False)
      else if q = ''1 = 1'' then True
      else False)"

definition selected :: "stmt \<Rightarrow> mem_db \<Rightarrow> Demo list" where
  "selected st db = filter (\<lambda>d. list_all (\<lambda>c. matches c d) (st_where st)) (rows db)"

definition window :: "stmt \<Rightarrow> Demo list \<Rightarrow> Demo list" where
  "window st xs =
     (let xs = (case st_offset st of
                  None \<Rightarrow> xs
                | Some off \<Rightarrow> if 0 < sint off then drop (nat (sint off)) xs else xs)
      in case st_limit st of
           None \<Rightarrow> xs
         | Some lim \<Rightarrow> if 0 \<le> sint lim then take (nat (sint lim)) xs else xs)"

definition mem_First :: "mem_db \<Rightarrow> stmt \<Rightarrow> Demo \<Rightarrow> foreign option \<times> Demo" where
  "mem_First db st dest =
     (case fault db of
        Some f \<Rightarrow> (Some f, dest)
      | None \<Rightarrow> (case selected st db of
                   [] \<Rightarrow> (gorm_ErrRecordNotFound, dest)
                 | d # _ \<Rightarrow> (None, d)))"

definition mem_Find :: "mem_db \<Rightarrow> stmt \<Rightarrow> Demo list \<Rightarrow> foreign option \<times> Demo list" where
  "mem_Find db st dest =
     (case fault db of
        Some f \<Rightarrow> (Some f, dest)
      | None \<Rightarrow> (None, window st (selected st db)))"

definition mem_Count :: "mem_db \<Rightarrow> stmt \<Rightarrow> foreign option \<times> 64 word" where
  "mem_Count db st =
     (case fault db of
        Some f \<Rightarrow> (Some f, 0)
      | None \<Rightarrow> (None, of_nat (length (selected st db))))"

definition mem_Create :: "mem_db \<Rightarrow> Demo \<Rightarrow> mem_db \<times> foreign option \<times> Demo" where
  "mem_Create db d =
     (case fault db of
        Some f \<Rightarrow> (db, Some f, d)
      | None \<Rightarrow>
          let d' = d\<lparr> ID := next_id db, Status := (if Status d = 0 then 1 else Status d),
                      CreatedAt := clock db, UpdatedAt := clock db \<rparr>
          in (db\<lparr> rows := rows db @ [d'], next_id := next_id db + 1, clock := Suc (clock db) \<rparr>,
              None, d'))"

definition mem_Save :: "mem_db \<Rightarrow> Demo \<Rightarrow> mem_db \<times> foreign option \<times> Demo" where
  "mem_Save db d =
     (case fault db of
        Some f \<Rightarrow> (db, Some f, d)
      | None \<Rightarrow>
          let d' = d\<lparr> UpdatedAt := clock db \<rparr>
          in (db\<lparr> rows := map (\<lambda>r. if ID r = ID d then d' else r) (rows db),
                  clock := Suc (clock db) \<rparr>, None, d'))"

definition mem_gorm :: "(mem_db, Demo) gorm" where
  "mem_gorm = \<lparr> db_First = mem_First, db_Find = mem_Find, db_Count = mem_Count,
                db_Create = mem_Create, db_Save = mem_Save \<rparr>"

definition db_empty :: mem_db where
  "db_empty = \<lparr> rows = [], next_id = 1, clock = 1, fault = None \<rparr>"

definition demo_of :: "string \<Rightarrow> string \<Rightarrow> 64 word \<Rightarrow> Demo" where
  "demo_of t c s = Demo_zero\<lparr> Title := t, Content := c, Status := s \<rparr>"

text \<open>Three seeded rows, with the IDs 1, 2 and 3.\<close>

definition db_three :: mem_db where
  "db_three =
     (let (db, _, _) = mem_Create db_empty (demo_of ''A'' ''x'' 1);
          (db, _, _) = mem_Create db (demo_of ''B'' ''y'' 1);
          (db, _, _) = mem_Create db (demo_of ''C'' ''z'' 1)
      in db)"

text \<open>A request context with nothing in it yet.\<close>

definition ctx_empty :: Context where
  "ctx_empty = \<lparr> Method = ''GET'', RequestHeader = Map.empty, Params = Map.empty,
                 Body = Inl ''EOF'', ResponseHeader = Map.empty, ResponseStatus = None,
                 ResponseBody = None, Aborted = False \<rparr>"

text \<open>A middleware that allows one origin, a preflight request from a given origin, and a
  downstream handler that answers 200.\<close>

definition m_app :: CORSMiddleware where
  "m_app = NewCORSMiddleware
     (Some \<lparr> AllowOrigins = [''https://app.example''], AllowMethods = [], AllowHeaders = [] \<rparr>)"

definition preflight :: "string \<Rightarrow> Context" where
  "preflight origin = ctx_empty\<lparr> Method := ''OPTIONS'', RequestHeader := [''Origin'' \<mapsto> origin] \<rparr>"

definition ok_handler :: HandlerFunc where
  "ok_handler c = Success c DataNil"

section \<open>Properties of the errors package\<close>

text \<open>
  C9. Each of the nine error-transforming functions of the errors package (Wrap, Wrapf,
  WithStack, WithMessage, WithMessagef, WithHint, WithHintf, WithDetail, WithDetailf)
  returns nil when its error argument is nil, whatever its other arguments are.
\<close>

theorem wrappers_nil_on_nil:
  "Wrap None msg = None \<and> Wrapf None format args = None \<and> WithStack None = None
   \<and> WithMessage None msg = None \<and> WithMessagef None format args = None
   \<and> WithHint None hint = None \<and> WithHintf None format args = None
   \<and> WithDetail None detail = None \<and> WithDetailf None format args = None"
  by (simp add: Wrap_def Wrapf_def WithStack_def WithMessage_def WithMessagef_def
      WithHint_def WithHintf_def WithDetail_def WithDetailf_def)

section \<open>Properties of the cache facade\<close>

text \<open>The three paths through \<^verbatim>\<open>Remember\<close>: a miss with a successful callback, a hit, and
  a miss with a failing callback.\<close>

lemma Remember_miss_ok:
  assumes "snd (snd (mgr_get m (store w0) key)) \<noteq> None"
      and "callback (env w0) = (e1, (v, None))"
  shows "CacheFacade_Remember m key ttl callback w0 =
           (\<lparr> store = fst (mgr_set m (fst (mgr_get m (store w0) key)) key v ttl),
              env = e1,
              trace = trace w0 @ [EvGet key, EvCallback, EvSet key v ttl] \<rparr>, (v, None))"
  using assms
  by (cases "mgr_get m (store w0) key"; cases "mgr_set m (fst (mgr_get m (store w0) key)) key v ttl")
     (auto simp: CacheFacade_Remember_def CacheFacade_Get_def CacheFacade_Set_def manager_Get_def manager_Set_def call_def Let_def split: prod.splits)

lemma Remember_hit:
  assumes "snd (mgr_get m (store w0) key) = (v, None)"
  shows "CacheFacade_Remember m key ttl callback w0 =
           (\<lparr> store = fst (mgr_get m (store w0) key), env = env w0,
              trace = trace w0 @ [EvGet key] \<rparr>, (v, None))"
  using assms
  by (cases "mgr_get m (store w0) key")
     (auto simp: CacheFacade_Remember_def CacheFacade_Get_def manager_Get_def Let_def split: prod.splits)

lemma Remember_miss_fail:
  assumes "snd (snd (mgr_get m (store w0) key)) \<noteq> None"
      and "callback (env w0) = (e1, (v, Some e))"
  shows "CacheFacade_Remember m key ttl callback w0 =
           (\<lparr> store = fst (mgr_get m (store w0) key), env = e1,
              trace = trace w0 @ [EvGet key, EvCallback] \<rparr>, ('''', Some e))"
  using assms
  by (cases "mgr_get m (store w0) key")
     (auto simp: CacheFacade_Remember_def CacheFacade_Get_def manager_Get_def call_def Let_def split: prod.splits)

text \<open>
  C1. Two calls of Remember in sequence, with the same key, ttl and compute function:
  if the first finds no cached value (Get returns an error), the compute function
  produces \<open>v\<close>, and the second call's Get finds \<open>v\<close>, then both calls return
  \<open>v\<close> with a nil error and the compute function has been invoked exactly once over the
  two calls: the trace has one more callback event than before, and the callback's
  environment is the one its single run left.
\<close>

theorem Remember_twice_computes_once:
  assumes miss: "snd (snd (mgr_get m (store w0) key)) \<noteq> None"
      and compute: "callback (env w0) = (e1, (v, None))"
      and first: "CacheFacade_Remember m key ttl callback w0 = (w1, r1)"
      and hit: "snd (mgr_get m (store w1) key) = (v, None)"
      and second: "CacheFacade_Remember m key ttl callback w1 = (w2, r2)"
  shows "r1 = (v, None) \<and> r2 = (v, None)
         \<and> callbacks (trace w2) = callbacks (trace w0) + 1 \<and> env w2 = e1"
proof -
  from Remember_miss_ok [where m = m and ?w0.0 = w0 and callback = callback and ttl = ttl, OF miss compute] first
  have w1: "w1 = \<lparr> store = fst (mgr_set m (fst (mgr_get m (store w0) key)) key v ttl),
              env = e1, trace = trace w0 @ [EvGet key, EvCallback, EvSet key v ttl] \<rparr>"
    and r1: "r1 = (v, None)" by simp_all
  from Remember_hit [where m = m and ?w0.0 = w1 and callback = callback and ttl = ttl, OF hit] second
  have w2: "w2 = \<lparr> store = fst (mgr_get m (store w1) key), env = env w1,
              trace = trace w1 @ [EvGet key] \<rparr>"
    and r2: "r2 = (v, None)" by simp_all
  have "callbacks (trace w2) = callbacks (trace w0) + 1"
    by (simp add: w1 w2 callbacks_def)
  moreover have "env w2 = e1" by (simp add: w1 w2)
  ultimately show ?thesis using r1 r2 by simp
qed

text \<open>
  The witness of C1: the in-memory backend, first empty, and the counting callback. Both
  calls return \<open>''v''\<close>, and the counter and the trace show one run of the callback.
\<close>

theorem Remember_twice_computes_once_witness:
  "\<exists>w1 w2.
     CacheFacade_Remember (table_manager False) ''k'' 60 counting_callback w_empty = (w1, (''v'', None))
   \<and> CacheFacade_Remember (table_manager False) ''k'' 60 counting_callback w1 = (w2, (''v'', None))
   \<and> callbacks (trace w2) = 1 \<and> env w2 = 1"
proof -
  obtain w1 r1 where first: "CacheFacade_Remember (table_manager False) ''k'' 60 counting_callback w_empty = (w1, r1)"
    by (cases "CacheFacade_Remember (table_manager False) ''k'' 60 counting_callback w_empty")
  obtain w2 r2 where second: "CacheFacade_Remember (table_manager False) ''k'' 60 counting_callback w1 = (w2, r2)"
    by (cases "CacheFacade_Remember (table_manager False) ''k'' 60 counting_callback w1")
  have miss: "snd (snd (mgr_get (table_manager False) (store w_empty) ''k'')) \<noteq> None"
    by (simp add: table_manager_def w_empty_def)
  have compute: "counting_callback (env w_empty) = (1, (''v'', None))"
    by (simp add: counting_callback_def w_empty_def)
  have w1: "store w1 = [''k'' \<mapsto> ''v'']"
    using first Remember_miss_ok [where m = "table_manager False" and ?w0.0 = w_empty and callback = counting_callback and ttl = 60, OF miss compute]
    by (simp add: table_manager_def w_empty_def)
  have hit: "snd (mgr_get (table_manager False) (store w1) ''k'') = (''v'', None)"
    by (simp add: w1 table_manager_def)
  from Remember_twice_computes_once [where m = "table_manager False" and ?w0.0 = w_empty and callback = counting_callback, OF miss compute first hit second] first second
  show ?thesis by (simp add: w_empty_def callbacks_def)
qed


text \<open>
  C2. When the compute function returns an error: Remember writes nothing to the cache
  (the trace gains no Set event, the backend state is the one the read left, and so it
  is the state before the call whenever the backend's read does not change it), and,
  the compute function being run at all only after a miss, on a miss Remember returns
  exactly that error.
\<close>

theorem Remember_compute_error_not_cached:
  assumes fails: "callback (env w0) = (e1, (v, Some e))"
      and run: "CacheFacade_Remember m key ttl callback w0 = (w', r)"
  shows "(snd (snd (mgr_get m (store w0) key)) \<noteq> None \<longrightarrow> r = ('''', Some e))
         \<and> filter is_write (trace w') = filter is_write (trace w0)
         \<and> store w' = fst (mgr_get m (store w0) key)
         \<and> (fst (mgr_get m (store w0) key) = store w0 \<longrightarrow> store w' = store w0)"
proof (cases "snd (snd (mgr_get m (store w0) key)) = None")
  case True
  then have "snd (mgr_get m (store w0) key) = (fst (snd (mgr_get m (store w0) key)), None)"
    by (metis prod.collapse)
  from Remember_hit [where m = m and ?w0.0 = w0 and callback = callback and ttl = ttl, OF this] run
  have "w' = \<lparr> store = fst (mgr_get m (store w0) key), env = env w0,
               trace = trace w0 @ [EvGet key] \<rparr>" by simp
  with True show ?thesis by simp
next
  case False
  from Remember_miss_fail [where m = m and ?w0.0 = w0 and callback = callback and ttl = ttl,
      OF False fails] run
  have "w' = \<lparr> store = fst (mgr_get m (store w0) key), env = e1,
               trace = trace w0 @ [EvGet key, EvCallback] \<rparr>"
    and "r = ('''', Some e)" by simp_all
  then show ?thesis by simp
qed

text \<open>
  The witness of C2: a miss on the empty in-memory backend and a callback that fails. The
  error comes back as it is, the backend is still empty and the trace holds no write.
\<close>

theorem Remember_compute_error_not_cached_witness:
  "snd (snd (mgr_get (table_manager False) (store w_empty) ''k'')) \<noteq> None
   \<and> fst (mgr_get (table_manager False) (store w_empty) ''k'') = store w_empty
   \<and> snd (CacheFacade_Remember (table_manager False) ''k'' 60 failing_callback w_empty)
       = ('''', Some (Foreign (OtherError ''compute failed'')))
   \<and> store (fst (CacheFacade_Remember (table_manager False) ''k'' 60 failing_callback w_empty))
       = store w_empty
   \<and> filter is_write
        (trace (fst (CacheFacade_Remember (table_manager False) ''k'' 60 failing_callback w_empty)))
       = []"
proof -
  have fails: "failing_callback (env w_empty)
                 = (1, (''partial'', Some (Foreign (OtherError ''compute failed''))))"
    by (simp add: failing_callback_def w_empty_def)
  have miss: "snd (snd (mgr_get (table_manager False) (store w_empty) ''k'')) \<noteq> None"
    by (simp add: table_manager_def w_empty_def)
  have ro: "fst (mgr_get (table_manager False) (store w_empty) ''k'') = store w_empty"
    by (simp add: table_manager_def w_empty_def)
  have t0: "trace w_empty = []" by (simp add: w_empty_def)
  from Remember_compute_error_not_cached [where m = "table_manager False" and ?w0.0 = w_empty
      and callback = failing_callback and key = "''k''" and ttl = 60, OF fails surjective_pairing]
    miss ro t0
  show ?thesis by simp
qed

text \<open>
  C3. After a miss, when the compute function succeeds with \<open>v\<close>, Remember returns
  \<open>v\<close> with a nil error whatever the backend's Set answers: the write is attempted
  and its error is dropped.
\<close>

theorem Remember_ignores_set_error:
  assumes miss: "snd (snd (mgr_get m (store w0) key)) \<noteq> None"
      and compute: "callback (env w0) = (e1, (v, None))"
      and run: "CacheFacade_Remember m key ttl callback w0 = (w', r)"
  shows "r = (v, None)
         \<and> trace w' = trace w0 @ [EvGet key, EvCallback, EvSet key v ttl]
         \<and> store w' = fst (mgr_set m (fst (mgr_get m (store w0) key)) key v ttl)"
  using Remember_miss_ok [where m = m and ?w0.0 = w0 and callback = callback and ttl = ttl,
      OF miss compute] run
  by auto

text \<open>
  The witness of C3: a backend whose Set fails on every call. Remember still returns the
  computed value with a nil error, after it has attempted the write.
\<close>

theorem Remember_ignores_set_error_witness:
  "snd (mgr_set (table_manager True) (fst (mgr_get (table_manager True) (store w_empty) ''k''))
          ''k'' ''v'' 60) = Some (Foreign (OtherError ''store is read-only''))
   \<and> snd (CacheFacade_Remember (table_manager True) ''k'' 60 counting_callback w_empty)
       = (''v'', None)
   \<and> trace (fst (CacheFacade_Remember (table_manager True) ''k'' 60 counting_callback w_empty))
       = [EvGet ''k'', EvCallback, EvSet ''k'' ''v'' 60]"
proof -
  have miss: "snd (snd (mgr_get (table_manager True) (store w_empty) ''k'')) \<noteq> None"
    by (simp add: table_manager_def w_empty_def)
  have compute: "counting_callback (env w_empty) = (0 + 1, (''v'', None))"
    by (simp add: counting_callback_def w_empty_def)
  have setfails: "snd (mgr_set (table_manager True)
        (fst (mgr_get (table_manager True) (store w_empty) ''k'')) ''k'' ''v'' 60)
        = Some (Foreign (OtherError ''store is read-only''))"
    by (simp add: table_manager_def)
  have t0: "trace w_empty = []" by (simp add: w_empty_def)
  from Remember_ignores_set_error [where m = "table_manager True" and ?w0.0 = w_empty
      and callback = counting_callback and key = "''k''" and ttl = 60,
      OF miss compute surjective_pairing] setfails t0
  show ?thesis by simp
qed

section \<open>Properties of the repositories\<close>

text \<open>
  The reference \<^verbatim>\<open>ErrNotFound\<close> is found in itself and under the wrapper that the Demo
  repository adds; no chain that ends in a foreign error contains it.
\<close>

lemma Is_ErrNotFound_self: "Is ErrNotFound ErrNotFound"
  by (simp add: Is_def ErrNotFound_def New_def)

lemma Is_Wrapf_ErrNotFound: "Is (Wrapf ErrNotFound format args) ErrNotFound"
  by (simp add: Is_def Wrapf_def ErrNotFound_def New_def)

lemma not_Is_foreign:
  "\<not> Is (Wrap (Some (Foreign f)) msg) ErrNotFound"
  "\<not> Is (Wrapf (Wrap (Some (Foreign f)) msg) format args) ErrNotFound"
  by (simp_all add: Is_def Wrap_def Wrapf_def ErrNotFound_def New_def)

lemma BaseRepository_FindByID_cases:
  assumes "db_First orm db (Where Session ''id = ?'' [ident]) dest = (e, d)"
  shows "BaseRepository_FindByID orm db ident dest =
           (case e of
              None \<Rightarrow> (None, d)
            | Some f \<Rightarrow> if f = GormErrRecordNotFound then (ErrNotFound, d)
                        else (Some (Wrapped (LWrap ''query by id failed'') (Foreign f)), d))"
  using assms
  by (simp add: BaseRepository_FindByID_def gorm_ErrRecordNotFound_def as_error_def Wrap_def
      split: option.splits)

lemma DemoRepository_FindByID_cases:
  assumes "db_First orm db (Where Session ''id = ?'' [ArgUint ident]) Demo_zero = (e, d)"
  shows "DemoRepository_FindByID orm db ident =
           (case e of
              None \<Rightarrow> (Some d, None)
            | Some f \<Rightarrow>
                (None, Wrapf (if f = GormErrRecordNotFound then ErrNotFound
                              else Wrap (Some (Foreign f)) ''query by id failed'')
                         ''demo not found, id: %d'' [ArgUint ident]))"
  using BaseRepository_FindByID_cases [OF assms]
  by (simp add: DemoRepository_FindByID_def Wrap_def Wrapf_def ErrNotFound_def New_def
      split: option.splits)

text \<open>
  C4. For every id and every backend: when the lookup of FindByID reports that no row
  matches (\<^verbatim>\<open>gorm.ErrRecordNotFound\<close>), BaseRepository.FindByID returns exactly
  \<^verbatim>\<open>ErrNotFound\<close>, which \<^verbatim>\<open>Is\<close> recognises; when the lookup fails with any other
  error, it returns that error wrapped with "query by id failed", a non-nil error that
  is not of the Not-Found kind. The distinction survives the wrapping of
  DemoRepository.FindByID: in the first case the controller's GetByID answers 404
  "demo not found", in the second 500 "get demo failed".
\<close>

theorem FindByID_error_kinds:
  assumes first: "db_First orm db (Where Session ''id = ?'' [ident]) dest = (e, d)"
      and demo: "db_First orm' db' (Where Session ''id = ?'' [ArgUint (of_nat n)]) Demo_zero = (e', d')"
      and param: "ParseUint32 (Param ctx ''id'') = Some n"
  shows "(e = gorm_ErrRecordNotFound \<longrightarrow>
            BaseRepository_FindByID orm db ident dest = (ErrNotFound, d))
       \<and> Is ErrNotFound ErrNotFound
       \<and> (e \<noteq> None \<and> e \<noteq> gorm_ErrRecordNotFound \<longrightarrow>
            BaseRepository_FindByID orm db ident dest
              = (Wrap (as_error e) ''query by id failed'', d)
          \<and> Wrap (as_error e) ''query by id failed'' \<noteq> None
          \<and> \<not> Is (Wrap (as_error e) ''query by id failed'') ErrNotFound)
       \<and> (e' = gorm_ErrRecordNotFound \<longrightarrow>
            Is (snd (DemoRepository_FindByID orm' db' (of_nat n))) ErrNotFound
          \<and> DemoController_GetByID orm' db' ctx = NotFound ctx ''demo not found''
          \<and> ResponseStatus (DemoController_GetByID orm' db' ctx) = Some 404)
       \<and> (e' \<noteq> None \<and> e' \<noteq> gorm_ErrRecordNotFound \<longrightarrow>
            snd (DemoRepository_FindByID orm' db' (of_nat n)) \<noteq> None
          \<and> \<not> Is (snd (DemoRepository_FindByID orm' db' (of_nat n))) ErrNotFound
          \<and> DemoController_GetByID orm' db' ctx = InternalError ctx ''get demo failed''
          \<and> ResponseStatus (DemoController_GetByID orm' db' ctx) = Some 500)"
proof -
  have a: "e = gorm_ErrRecordNotFound \<longrightarrow>
            BaseRepository_FindByID orm db ident dest = (ErrNotFound, d)"
    using BaseRepository_FindByID_cases [OF first] by (simp add: gorm_ErrRecordNotFound_def)
  have b: "e \<noteq> None \<and> e \<noteq> gorm_ErrRecordNotFound \<longrightarrow>
            BaseRepository_FindByID orm db ident dest
              = (Wrap (as_error e) ''query by id failed'', d)
          \<and> Wrap (as_error e) ''query by id failed'' \<noteq> None
          \<and> \<not> Is (Wrap (as_error e) ''query by id failed'') ErrNotFound"
    using BaseRepository_FindByID_cases [OF first] not_Is_foreign(1)
    by (auto simp: gorm_ErrRecordNotFound_def as_error_def Wrap_def)
  have c: "e' = gorm_ErrRecordNotFound \<longrightarrow>
            Is (snd (DemoRepository_FindByID orm' db' (of_nat n))) ErrNotFound
          \<and> DemoController_GetByID orm' db' ctx = NotFound ctx ''demo not found''
          \<and> ResponseStatus (DemoController_GetByID orm' db' ctx) = Some 404"
  proof
    assume nf: "e' = gorm_ErrRecordNotFound"
    have r: "DemoRepository_FindByID orm' db' (of_nat n)
               = (None, Wrapf ErrNotFound ''demo not found, id: %d'' [ArgUint (of_nat n)])"
      using DemoRepository_FindByID_cases [OF demo] nf by (simp add: gorm_ErrRecordNotFound_def)
    have nn: "Wrapf ErrNotFound ''demo not found, id: %d'' [ArgUint (of_nat n)] \<noteq> None"
      by (simp add: Wrapf_def ErrNotFound_def New_def)
    have g: "DemoController_GetByID orm' db' ctx = NotFound ctx ''demo not found''"
      using param r nn Is_Wrapf_ErrNotFound
      by (simp add: DemoController_GetByID_def DemoService_GetByID_def)
    show "Is (snd (DemoRepository_FindByID orm' db' (of_nat n))) ErrNotFound
          \<and> DemoController_GetByID orm' db' ctx = NotFound ctx ''demo not found''
          \<and> ResponseStatus (DemoController_GetByID orm' db' ctx) = Some 404"
      using r g Is_Wrapf_ErrNotFound by (simp add: NotFound_def JSON_def)
  qed
  have d: "e' \<noteq> None \<and> e' \<noteq> gorm_ErrRecordNotFound \<longrightarrow>
            snd (DemoRepository_FindByID orm' db' (of_nat n)) \<noteq> None
          \<and> \<not> Is (snd (DemoRepository_FindByID orm' db' (of_nat n))) ErrNotFound
          \<and> DemoController_GetByID orm' db' ctx = InternalError ctx ''get demo failed''
          \<and> ResponseStatus (DemoController_GetByID orm' db' ctx) = Some 500"
  proof
    assume "e' \<noteq> None \<and> e' \<noteq> gorm_ErrRecordNotFound"
    then obtain f where f: "e' = Some f" "f \<noteq> GormErrRecordNotFound"
      by (auto simp: gorm_ErrRecordNotFound_def)
    let ?w = "Wrapf (Wrap (Some (Foreign f)) ''query by id failed'')
                ''demo not found, id: %d'' [ArgUint (of_nat n)]"
    have r: "DemoRepository_FindByID orm' db' (of_nat n) = (None, ?w)"
      using DemoRepository_FindByID_cases [OF demo] f by simp
    have nn: "?w \<noteq> None" by (simp add: Wrapf_def Wrap_def)
    have ni: "\<not> Is ?w ErrNotFound" by (rule not_Is_foreign(2))
    have g: "DemoController_GetByID orm' db' ctx = InternalError ctx ''get demo failed''"
      using param r nn ni
      by (simp add: DemoController_GetByID_def DemoService_GetByID_def)
    show "snd (DemoRepository_FindByID orm' db' (of_nat n)) \<noteq> None
          \<and> \<not> Is (snd (DemoRepository_FindByID orm' db' (of_nat n))) ErrNotFound
          \<and> DemoController_GetByID orm' db' ctx = InternalError ctx ''get demo failed''
          \<and> ResponseStatus (DemoController_GetByID orm' db' ctx) = Some 500"
      using r g nn ni by (simp add: InternalError_def JSON_def)
  qed
  from a b c d Is_ErrNotFound_self show ?thesis by blast
qed


text \<open>The three seeded rows, and the statement and the path parameter of the runs below.\<close>

lemma rows_db_three:
  "db_three = \<lparr> rows = [\<lparr> ID = 1, Title = ''A'', Content = ''x'', Status = 1, CreatedAt = 1, UpdatedAt = 1 \<rparr>,
                         \<lparr> ID = 2, Title = ''B'', Content = ''y'', Status = 1, CreatedAt = 2, UpdatedAt = 2 \<rparr>,
                         \<lparr> ID = 3, Title = ''C'', Content = ''z'', Status = 1, CreatedAt = 3, UpdatedAt = 3 \<rparr>],
                 next_id = 4, clock = 4, fault = None \<rparr>"
  by (simp add: db_three_def db_empty_def mem_Create_def demo_of_def Demo_zero_def Let_def)

lemma by_id: "Where Session ''id = ?'' [a] = \<lparr> st_where = [Cond ''id = ?'' [a]], st_offset = None, st_limit = None \<rparr>"
  by (simp add: Where_def Session_def)

lemma ParseUint32_7: "ParseUint32 ''7'' = Some 7"
  by (simp add: ParseUint32_def is_digit_def)

lemma ParseUint32_2: "ParseUint32 ''2'' = Some 2"
  by (simp add: ParseUint32_def is_digit_def)

text \<open>
  The witness of C4: on the seeded table, ID 7 matches no row and the handler answers
  404; with the database failing ("connection refused"), ID 2 gives the wrapped
  "query by id failed" error and the handler answers 500.
\<close>

theorem FindByID_error_kinds_witness:
  "BaseRepository_FindByID mem_gorm db_three (ArgUint 7) Demo_zero = (ErrNotFound, Demo_zero)
   \<and> ResponseStatus (DemoController_GetByID mem_gorm db_three
         (ctx_empty\<lparr> Params := [''id'' \<mapsto> ''7''] \<rparr>)) = Some 404
   \<and> ResponseBody (DemoController_GetByID mem_gorm db_three
         (ctx_empty\<lparr> Params := [''id'' \<mapsto> ''7''] \<rparr>))
        = Some \<lparr> Code = 404, Message = ''demo not found'', Data = DataNil \<rparr>
   \<and> fst (BaseRepository_FindByID mem_gorm
             (db_three\<lparr> fault := Some (OtherError ''connection refused'') \<rparr>) (ArgUint 2) Demo_zero)
        = Some (Wrapped (LWrap ''query by id failed'') (Foreign (OtherError ''connection refused'')))
   \<and> ResponseStatus (DemoController_GetByID mem_gorm
         (db_three\<lparr> fault := Some (OtherError ''connection refused'') \<rparr>)
         (ctx_empty\<lparr> Params := [''id'' \<mapsto> ''2''] \<rparr>)) = Some 500
   \<and> ResponseBody (DemoController_GetByID mem_gorm
         (db_three\<lparr> fault := Some (OtherError ''connection refused'') \<rparr>)
         (ctx_empty\<lparr> Params := [''id'' \<mapsto> ''2''] \<rparr>))
        = Some \<lparr> Code = 500, Message = ''get demo failed'', Data = DataNil \<rparr>"
proof -
  let ?down = "db_three\<lparr> fault := Some (OtherError ''connection refused'') \<rparr>"
  let ?c7 = "ctx_empty\<lparr> Params := [''id'' \<mapsto> ''7''] \<rparr>"
  let ?c2 = "ctx_empty\<lparr> Params := [''id'' \<mapsto> ''2''] \<rparr>"
  have none: "db_First mem_gorm db_three (Where Session ''id = ?'' [ArgUint 7]) Demo_zero
                = (gorm_ErrRecordNotFound, Demo_zero)"
    by (simp add: mem_gorm_def mem_First_def selected_def rows_db_three by_id)
  have none': "db_First mem_gorm db_three (Where Session ''id = ?'' [ArgUint (of_nat 7)]) Demo_zero
                = (gorm_ErrRecordNotFound, Demo_zero)"
    using none by simp
  have down: "db_First mem_gorm ?down (Where Session ''id = ?'' [ArgUint 2]) Demo_zero
                = (Some (OtherError ''connection refused''), Demo_zero)"
    by (simp add: mem_gorm_def mem_First_def)
  have down': "db_First mem_gorm ?down (Where Session ''id = ?'' [ArgUint (of_nat 2)]) Demo_zero
                = (Some (OtherError ''connection refused''), Demo_zero)"
    using down by simp
  have p7: "ParseUint32 (Param ?c7 ''id'') = Some 7"
    by (simp add: Param_def ctx_empty_def ParseUint32_7)
  have p2: "ParseUint32 (Param ?c2 ''id'') = Some 2"
    by (simp add: Param_def ctx_empty_def ParseUint32_2)
  have other: "Some (OtherError ''connection refused'') \<noteq> None
               \<and> Some (OtherError ''connection refused'') \<noteq> gorm_ErrRecordNotFound"
    by (simp add: gorm_ErrRecordNotFound_def)
  note t1 = FindByID_error_kinds [OF none down' p2]
  note t2 = FindByID_error_kinds [OF down none' p7]
  from t1 t2 other show ?thesis
    by (simp add: NotFound_def InternalError_def JSON_def as_error_def Wrap_def)
qed


text \<open>
  The offset is computed in Go's \<^verbatim>\<open>int\<close>, that is modulo \<open>2^64\<close>; it is the integer
  \<open>(page - 1) * pageSize\<close> whenever that integer is an \<^verbatim>\<open>int\<close>.
\<close>

lemma sint_page_offset:
  fixes page pageSize :: "64 word"
  assumes "- (2 ^ 63) < sint page"
      and "- (2 ^ 63) \<le> (sint page - 1) * sint pageSize"
      and "(sint page - 1) * sint pageSize < 2 ^ 63"
  shows "sint ((page - 1) * pageSize) = (sint page - 1) * sint pageSize"
proof -
  have lo: "- (2 ^ 63) \<le> sint page - 1" using assms(1) by simp
  have hi: "sint page - 1 < 2 ^ 63" using sint_lt [of page] by simp
  have "sint (page - 1) = signed_take_bit 63 (sint page - 1)"
    by (simp add: sint_word_ariths)
  also have "\<dots> = sint page - 1"
    using lo hi by (simp add: signed_take_bit_int_eq_self)
  finally have p: "sint (page - 1) = sint page - 1" .
  have "sint ((page - 1) * pageSize) = signed_take_bit 63 (sint (page - 1) * sint pageSize)"
    by (simp add: sint_word_ariths)
  also have "\<dots> = (sint page - 1) * sint pageSize"
    using assms(2,3) by (simp add: p signed_take_bit_int_eq_self)
  finally show ?thesis .
qed

lemma BaseRepository_FindPage_ok:
  assumes "conds = (case query of None \<Rightarrow> [] | Some (q, args) \<Rightarrow> [Cond q args])"
      and "db_Count orm db \<lparr> st_where = conds, st_offset = None, st_limit = None \<rparr> = (None, cnt)"
      and "db_Find orm db \<lparr> st_where = conds, st_offset = Some ((page - 1) * pageSize),
                              st_limit = Some pageSize \<rparr> dest = (None, found)"
  shows "BaseRepository_FindPage orm db dest page pageSize query = ((cnt, None), found)"
  using assms
  by (cases query)
     (auto simp: BaseRepository_FindPage_def Session_def Where_def Offset_def Limit_def Let_def)

text \<open>
  C5. For every page, page size and predicate, on every backend: FindPage runs a count
  on the statement of the predicate alone, and a find on the same statement with the
  offset \<open>(page - 1) * pageSize\<close> and the limit \<open>pageSize\<close>, both passed on as they
  are (pages count from 1, nothing is clamped); when both succeed it returns the rows
  of the find and the total of the count. Over the three seeded rows, page 1 of size 2
  is the first two rows with total 3, and page 2 of size 2 is the remaining row with
  total 3.
\<close>

theorem FindPage_offset_and_limit:
  assumes conds: "conds = (case query of None \<Rightarrow> [] | Some (q, args) \<Rightarrow> [Cond q args])"
      and off: "off = (page - 1) * pageSize"
      and count: "db_Count orm db \<lparr> st_where = conds, st_offset = None, st_limit = None \<rparr>
                    = (None, cnt)"
      and find: "db_Find orm db \<lparr> st_where = conds, st_offset = Some off,
                                   st_limit = Some pageSize \<rparr> dest = (None, found)"
  shows "BaseRepository_FindPage orm db dest page pageSize query = ((cnt, None), found)
       \<and> (- (2 ^ 63) < sint page \<and> - (2 ^ 63) \<le> (sint page - 1) * sint pageSize
            \<and> (sint page - 1) * sint pageSize < 2 ^ 63
          \<longrightarrow> sint off = (sint page - 1) * sint pageSize)
       \<and> length (rows db_three) = 3
       \<and> BaseRepository_FindPage mem_gorm db_three [] 1 2 (Some (''1 = 1'', []))
           = ((3, None), take 2 (rows db_three))
       \<and> BaseRepository_FindPage mem_gorm db_three [] 2 2 (Some (''1 = 1'', []))
           = ((3, None), drop 2 (rows db_three))"
proof -
  have g: "BaseRepository_FindPage orm db dest page pageSize query = ((cnt, None), found)"
    using BaseRepository_FindPage_ok [OF conds count] find off by simp
  have s: "- (2 ^ 63) < sint page \<and> - (2 ^ 63) \<le> (sint page - 1) * sint pageSize
            \<and> (sint page - 1) * sint pageSize < 2 ^ 63
          \<longrightarrow> sint off = (sint page - 1) * sint pageSize"
    using sint_page_offset [of page pageSize] off by simp
  have n: "length (rows db_three) = 3" by (simp add: rows_db_three)
  have c: "db_Count mem_gorm db_three \<lparr> st_where = [Cond ''1 = 1'' []], st_offset = None,
              st_limit = None \<rparr> = (None, 3)"
    by (simp add: mem_gorm_def mem_Count_def selected_def rows_db_three)
  have f1: "db_Find mem_gorm db_three \<lparr> st_where = [Cond ''1 = 1'' []],
              st_offset = Some ((1 - 1) * 2), st_limit = Some 2 \<rparr> []
              = (None, take 2 (rows db_three))"
    by (simp add: mem_gorm_def mem_Find_def selected_def window_def rows_db_three)
  have f2: "db_Find mem_gorm db_three \<lparr> st_where = [Cond ''1 = 1'' []],
              st_offset = Some ((2 - 1) * 2), st_limit = Some 2 \<rparr> []
              = (None, drop 2 (rows db_three))"
    by (simp add: mem_gorm_def mem_Find_def selected_def window_def rows_db_three)
  have p1: "BaseRepository_FindPage mem_gorm db_three [] 1 2 (Some (''1 = 1'', []))
           = ((3, None), take 2 (rows db_three))"
    by (rule BaseRepository_FindPage_ok [OF _ c f1]) simp
  have p2: "BaseRepository_FindPage mem_gorm db_three [] 2 2 (Some (''1 = 1'', []))
           = ((3, None), drop 2 (rows db_three))"
    by (rule BaseRepository_FindPage_ok [OF _ c f2]) simp
  from g s n p1 p2 show ?thesis by blast
qed


text \<open>The witness of C5: page 2 of size 2 over the seeded table, where the offset is 2.\<close>

theorem FindPage_offset_and_limit_witness:
  "BaseRepository_FindPage mem_gorm db_three [] 2 2 (Some (''1 = 1'', []))
     = ((3, None), [\<lparr> ID = 3, Title = ''C'', Content = ''z'', Status = 1, CreatedAt = 3, UpdatedAt = 3 \<rparr>])
   \<and> sint (((2 :: 64 word) - 1) * 2) = (sint (2 :: 64 word) - 1) * sint (2 :: 64 word)
   \<and> sint (((2 :: 64 word) - 1) * 2) = 2"
proof -
  have c: "db_Count mem_gorm db_three \<lparr> st_where = [Cond ''1 = 1'' []], st_offset = None,
              st_limit = None \<rparr> = (None, 3)"
    by (simp add: mem_gorm_def mem_Count_def selected_def rows_db_three)
  have f: "db_Find mem_gorm db_three \<lparr> st_where = [Cond ''1 = 1'' []],
              st_offset = Some ((2 - 1) * 2), st_limit = Some 2 \<rparr> []
              = (None, [\<lparr> ID = 3, Title = ''C'', Content = ''z'', Status = 1, CreatedAt = 3, UpdatedAt = 3 \<rparr>])"
    by (simp add: mem_gorm_def mem_Find_def selected_def window_def rows_db_three)
  have q: "[Cond ''1 = 1'' []] = (case Some (''1 = 1'', []) of None \<Rightarrow> [] | Some (q, args) \<Rightarrow> [Cond q args])"
    by simp
  have r: "- (2 ^ 63) < sint (2 :: 64 word)
           \<and> - (2 ^ 63) \<le> (sint (2 :: 64 word) - 1) * sint (2 :: 64 word)
           \<and> (sint (2 :: 64 word) - 1) * sint (2 :: 64 word) < 2 ^ 63"
    by simp
  from FindPage_offset_and_limit [OF q refl c f] r show ?thesis by simp
qed

section \<open>Properties of the Demo service and controller\<close>

text \<open>
  \<^verbatim>\<open>Create\<close> checks the title before it touches the repository: with an empty title
  it returns an error and the database is the one it was given. \<^verbatim>\<open>Update\<close> has no
  such check: whatever title comes in is copied onto the record found and saved.
\<close>

lemma DemoService_Create_rejects_empty_title:
  "Title demo = '''' \<Longrightarrow> DemoService_Create orm db demo = (db, New ''title cannot be empty'', demo)"
  by (simp add: DemoService_Create_def)

lemma DemoService_Update_saves_given_title:
  assumes "db_First orm db (Where Session ''id = ?'' [ArgUint ident]) Demo_zero = (None, existing)"
      and "db_Save orm db (existing\<lparr> Title := Title demo, Content := Content demo,
                                       Status := Status demo \<rparr>) = (db', None, saved)"
  shows "DemoService_Update orm db ident demo = (db', None)"
  using DemoRepository_FindByID_cases [OF assms(1)] assms(2)
  by (simp add: DemoService_Update_def DemoRepository_Update_def BaseRepository_Update_def)

text \<open>
  C6. The service is to refuse an empty title on creation and on update. \<^verbatim>\<open>Create\<close>
  does (the lemma above); \<^verbatim>\<open>Update\<close> does not: on the seeded table, updating the
  record with ID 1 with an empty title returns a nil error, and the stored record, whose
  title was \<open>''A''\<close>, now has the empty title.
\<close>

theorem DemoService_Update_persists_empty_title:
  "snd (DemoService_Update mem_gorm db_three 1 (demo_of '''' ''new'' 1)) = None
   \<and> map Title (rows (fst (DemoService_Update mem_gorm db_three 1 (demo_of '''' ''new'' 1))))
       = ['''', ''B'', ''C'']
   \<and> map Title (rows db_three) = [''A'', ''B'', ''C'']"
proof -
  have f: "db_First mem_gorm db_three (Where Session ''id = ?'' [ArgUint 1]) Demo_zero
             = (None, \<lparr> ID = 1, Title = ''A'', Content = ''x'', Status = 1, CreatedAt = 1, UpdatedAt = 1 \<rparr>)"
    by (simp add: mem_gorm_def mem_First_def selected_def rows_db_three by_id)
  have s: "db_Save mem_gorm db_three
             (\<lparr> ID = 1, Title = ''A'', Content = ''x'', Status = 1, CreatedAt = 1, UpdatedAt = 1 \<rparr>
                \<lparr> Title := Title (demo_of '''' ''new'' 1), Content := Content (demo_of '''' ''new'' 1),
                  Status := Status (demo_of '''' ''new'' 1) \<rparr>)
             = (db_three\<lparr> rows :=
                   [\<lparr> ID = 1, Title = '''', Content = ''new'', Status = 1, CreatedAt = 1, UpdatedAt = 4 \<rparr>,
                    \<lparr> ID = 2, Title = ''B'', Content = ''y'', Status = 1, CreatedAt = 2, UpdatedAt = 2 \<rparr>,
                    \<lparr> ID = 3, Title = ''C'', Content = ''z'', Status = 1, CreatedAt = 3, UpdatedAt = 3 \<rparr>],
                   clock := 5 \<rparr>, None,
                \<lparr> ID = 1, Title = '''', Content = ''new'', Status = 1, CreatedAt = 1, UpdatedAt = 4 \<rparr>)"
    by (simp add: mem_gorm_def mem_Save_def rows_db_three demo_of_def Demo_zero_def Let_def)
  show ?thesis
    by (simp add: DemoService_Update_saves_given_title [OF f s]) (simp add: rows_db_three)
qed

lemma DemoController_Create_ok:
  assumes "Body ctx = Inr req" and "req_Title req \<noteq> ''''"
      and "db_Create orm db (Demo_zero\<lparr> Title := req_Title req, Content := req_Content req,
                                        Status := req_Status req \<rparr>) = (db', None, created)"
  shows "DemoController_Create orm db ctx =
           (db', ctx\<lparr> ResponseStatus := Some 200,
                     ResponseBody := Some \<lparr> Code = 200, Message = ''demo created successfully'',
                                            Data = DataDemo created \<rparr> \<rparr>)"
  using assms
  by (simp add: DemoController_Create_def ShouldBindJSON_def DemoService_Create_def
      DemoRepository_Create_def BaseRepository_Create_def SuccessWithMessage_def JSON_def
      Demo_zero_def)

text \<open>
  C7, as amended. For every create request that binds, has a non-empty title and is
  accepted by the persistence layer, the handler of POST /api/v1/demos answers with the
  HTTP status 200 and the envelope whose code is 200, whose message is
  "demo created successfully" (the handler passes its own message, it is not
  "success"), and whose data is the created record as the persistence layer returned
  it, with the ID it assigned.
\<close>

theorem Create_handler_success_envelope:
  assumes "Body ctx = Inr req" and "req_Title req \<noteq> ''''"
      and "db_Create orm db (Demo_zero\<lparr> Title := req_Title req, Content := req_Content req,
                                        Status := req_Status req \<rparr>) = (db', None, created)"
  shows "fst (DemoController_Create orm db ctx) = db'
       \<and> ResponseStatus (snd (DemoController_Create orm db ctx)) = Some 200
       \<and> ResponseBody (snd (DemoController_Create orm db ctx))
           = Some \<lparr> Code = 200, Message = ''demo created successfully'', Data = DataDemo created \<rparr>"
  using DemoController_Create_ok [OF assms] by simp

text \<open>The witness of C7: the request of the scenario (title "A", content "x", status 1) on
  the empty in-memory database; the created record has the ID 1.\<close>

theorem Create_handler_success_envelope_witness:
  "ResponseStatus (snd (DemoController_Create mem_gorm db_empty
       (ctx_empty\<lparr> Method := ''POST'',
                   Body := Inr \<lparr> req_Title = ''A'', req_Content = ''x'', req_Status = 1 \<rparr> \<rparr>))) = Some 200
   \<and> ResponseBody (snd (DemoController_Create mem_gorm db_empty
       (ctx_empty\<lparr> Method := ''POST'',
                   Body := Inr \<lparr> req_Title = ''A'', req_Content = ''x'', req_Status = 1 \<rparr> \<rparr>)))
       = Some \<lparr> Code = 200, Message = ''demo created successfully'',
                Data = DataDemo \<lparr> ID = 1, Title = ''A'', Content = ''x'', Status = 1,
                                  CreatedAt = 1, UpdatedAt = 1 \<rparr> \<rparr>"
proof -
  let ?req = "\<lparr> req_Title = ''A'', req_Content = ''x'', req_Status = 1 \<rparr>"
  let ?ctx = "ctx_empty\<lparr> Method := ''POST'', Body := Inr ?req \<rparr>"
  have b: "Body ?ctx = Inr ?req" by simp
  have t: "req_Title ?req \<noteq> ''''" by simp
  have c: "db_Create mem_gorm db_empty (Demo_zero\<lparr> Title := req_Title ?req,
              Content := req_Content ?req, Status := req_Status ?req \<rparr>)
            = (db_empty\<lparr> rows := [\<lparr> ID = 1, Title = ''A'', Content = ''x'', Status = 1,
                                      CreatedAt = 1, UpdatedAt = 1 \<rparr>], next_id := 2, clock := 2 \<rparr>,
               None,
               \<lparr> ID = 1, Title = ''A'', Content = ''x'', Status = 1, CreatedAt = 1, UpdatedAt = 1 \<rparr>)"
    by (simp add: mem_gorm_def mem_Create_def db_empty_def Demo_zero_def Let_def)
  from Create_handler_success_envelope [OF b t c] show ?thesis by simp
qed

text \<open>
  C7 as it was stated fails on the same request: the message of the envelope is
  "demo created successfully", which is not "success".
\<close>

theorem Create_handler_message_counterexample:
  "map_option Message (ResponseBody (snd (DemoController_Create mem_gorm db_empty
       (ctx_empty\<lparr> Method := ''POST'',
                   Body := Inr \<lparr> req_Title = ''A'', req_Content = ''x'', req_Status = 1 \<rparr> \<rparr>))))
     = Some ''demo created successfully''
   \<and> map_option Message (ResponseBody (snd (DemoController_Create mem_gorm db_empty
       (ctx_empty\<lparr> Method := ''POST'',
                   Body := Inr \<lparr> req_Title = ''A'', req_Content = ''x'', req_Status = 1 \<rparr> \<rparr>))))
     \<noteq> Some ''success''"
proof -
  let ?req = "\<lparr> req_Title = ''A'', req_Content = ''x'', req_Status = 1 \<rparr>"
  let ?ctx = "ctx_empty\<lparr> Method := ''POST'', Body := Inr ?req \<rparr>"
  have b: "Body ?ctx = Inr ?req" by simp
  have t: "req_Title ?req \<noteq> ''''" by simp
  have c: "db_Create mem_gorm db_empty (Demo_zero\<lparr> Title := req_Title ?req,
              Content := req_Content ?req, Status := req_Status ?req \<rparr>)
            = (db_empty\<lparr> rows := [\<lparr> ID = 1, Title = ''A'', Content = ''x'', Status = 1,
                                      CreatedAt = 1, UpdatedAt = 1 \<rparr>], next_id := 2, clock := 2 \<rparr>,
               None,
               \<lparr> ID = 1, Title = ''A'', Content = ''x'', Status = 1, CreatedAt = 1, UpdatedAt = 1 \<rparr>)"
    by (simp add: mem_gorm_def mem_Create_def db_empty_def Demo_zero_def Let_def)
  from DemoController_Create_ok [OF b t c] show ?thesis by simp
qed

section \<open>Properties of the CORS middleware\<close>

text \<open>
  An origin is allowed when it is not empty and the allow-list holds it or the wildcard.
  The headers are set before the method is looked at, so they do not depend on it.
\<close>

lemma origin_loop_iff: "origin_loop xs origin \<longleftrightarrow> ''*'' \<in> set xs \<or> origin \<in> set xs"
  by (induction xs) auto

lemma isOriginAllowed_iff:
  "isOriginAllowed m origin \<longleftrightarrow>
     origin \<noteq> '''' \<and> (''*'' \<in> set (allowOrigins m) \<or> origin \<in> set (allowOrigins m))"
  by (simp add: isOriginAllowed_def origin_loop_iff)

lemma single_wildcard: "length xs = Suc 0 \<and> xs ! 0 = ''*'' \<longleftrightarrow> xs = [''*'']"
  by (cases xs) auto

lemma Header_simps:
  "Method (Header ctx k v) = Method ctx"
  "Aborted (Header ctx k v) = Aborted ctx"
  "ResponseStatus (Header ctx k v) = ResponseStatus ctx"
  "ResponseBody (Header ctx k v) = ResponseBody ctx"
  "RequestHeader (Header ctx k v) = RequestHeader ctx"
  "v \<noteq> '''' \<Longrightarrow> ResponseHeader (Header ctx k v) k = Some v"
  "k' \<noteq> k \<Longrightarrow> ResponseHeader (Header ctx k v) k' = ResponseHeader ctx k'"
  by (simp_all add: Header_def)

lemma Handle_no_pending:
  "CORSMiddleware_Handle m pending ctx =
     (if Method ctx = ''OPTIONS'' then CORSMiddleware_Handle m [] ctx
      else Next pending (CORSMiddleware_Handle m [] ctx))"
  by (simp add: CORSMiddleware_Handle_def Let_def Header_simps)

lemma Handle_headers:
  "ResponseHeader (CORSMiddleware_Handle m [] ctx) ''Access-Control-Max-Age'' = Some ''86400''"
  "ResponseHeader (CORSMiddleware_Handle m [] ctx) ''Access-Control-Allow-Credentials'' = Some ''true''"
  "ResponseHeader (CORSMiddleware_Handle m [] ctx) ''Access-Control-Allow-Origin''
     = (if GetHeader ctx ''Origin'' \<noteq> ''''
           \<and> (''*'' \<in> set (allowOrigins m) \<or> GetHeader ctx ''Origin'' \<in> set (allowOrigins m))
        then Some (GetHeader ctx ''Origin'')
        else if allowOrigins m = [''*''] then Some ''*''
        else ResponseHeader ctx ''Access-Control-Allow-Origin'')"
  by (simp_all add: CORSMiddleware_Handle_def Let_def Header_simps AbortWithStatus_def
      isOriginAllowed_iff single_wildcard)

lemma Handle_status:
  "Method ctx = ''OPTIONS'' \<Longrightarrow> ResponseStatus (CORSMiddleware_Handle m [] ctx) = Some 204"
  "Method ctx = ''OPTIONS'' \<Longrightarrow> Aborted (CORSMiddleware_Handle m [] ctx)"
  "Method ctx \<noteq> ''OPTIONS'' \<Longrightarrow> ResponseStatus (CORSMiddleware_Handle m [] ctx) = ResponseStatus ctx"
  "Method ctx \<noteq> ''OPTIONS'' \<Longrightarrow> Aborted (CORSMiddleware_Handle m [] ctx) = Aborted ctx"
  by (simp_all add: CORSMiddleware_Handle_def Let_def Header_simps AbortWithStatus_def)

lemma Next_aborted: "Aborted ctx \<Longrightarrow> Next hs ctx = ctx"
  by (cases hs) simp_all


lemma Header_Method_update:
  "Header (ctx\<lparr> Method := meth \<rparr>) k v = (Header ctx k v)\<lparr> Method := meth \<rparr>"
  by (simp add: Header_def)

lemma GetHeader_Method_update: "GetHeader (ctx\<lparr> Method := meth \<rparr>) k = GetHeader ctx k"
  by (simp add: GetHeader_def)

lemma ResponseHeader_AbortWithStatus:
  "ResponseHeader (AbortWithStatus ctx code) = ResponseHeader ctx"
  by (simp add: AbortWithStatus_def)

lemma Handle_headers_any_method:
  "ResponseHeader (CORSMiddleware_Handle m [] (ctx\<lparr> Method := meth \<rparr>))
     = ResponseHeader (CORSMiddleware_Handle m [] ctx)"
  by (simp add: CORSMiddleware_Handle_def Let_def Header_Method_update GetHeader_Method_update
      ResponseHeader_AbortWithStatus Header_simps)
text \<open>
  C8, as amended. For every request whose method is OPTIONS the middleware aborts with
  the status 204 and runs no pending handler (its result is the one with no handler
  pending, and \<^verbatim>\<open>Next\<close> does nothing on it); for every other request it continues with
  the pending handlers, status and abort flag untouched. In both cases it has set the
  same headers before: Access-Control-Max-Age is "86400", and
  Access-Control-Allow-Origin is the request's Origin when that is not empty and the
  allow-list holds it or "*"; it is "*" when the Origin is not allowed in that way and
  the allow-list is exactly ["*"]; otherwise the middleware does not set it.
\<close>

theorem CORS_Handle_preflight_and_headers:
  "(Method ctx = ''OPTIONS'' \<longrightarrow>
       CORSMiddleware_Handle m pending ctx = CORSMiddleware_Handle m [] ctx
     \<and> ResponseStatus (CORSMiddleware_Handle m pending ctx) = Some 204
     \<and> Aborted (CORSMiddleware_Handle m pending ctx)
     \<and> Next pending (CORSMiddleware_Handle m pending ctx) = CORSMiddleware_Handle m pending ctx)
   \<and> (Method ctx \<noteq> ''OPTIONS'' \<longrightarrow>
       CORSMiddleware_Handle m pending ctx = Next pending (CORSMiddleware_Handle m [] ctx)
     \<and> ResponseStatus (CORSMiddleware_Handle m [] ctx) = ResponseStatus ctx
     \<and> Aborted (CORSMiddleware_Handle m [] ctx) = Aborted ctx)
   \<and> ResponseHeader (CORSMiddleware_Handle m [] ctx)
       = ResponseHeader (CORSMiddleware_Handle m [] (ctx\<lparr> Method := ''OPTIONS'' \<rparr>))
   \<and> ResponseHeader (CORSMiddleware_Handle m [] ctx) ''Access-Control-Max-Age'' = Some ''86400''
   \<and> ResponseHeader (CORSMiddleware_Handle m [] ctx) ''Access-Control-Allow-Origin''
       = (if GetHeader ctx ''Origin'' \<noteq> ''''
             \<and> (''*'' \<in> set (allowOrigins m) \<or> GetHeader ctx ''Origin'' \<in> set (allowOrigins m))
          then Some (GetHeader ctx ''Origin'')
          else if allowOrigins m = [''*''] then Some ''*''
          else ResponseHeader ctx ''Access-Control-Allow-Origin'')"
proof -
  have pre: "Method ctx = ''OPTIONS'' \<longrightarrow>
       CORSMiddleware_Handle m pending ctx = CORSMiddleware_Handle m [] ctx
     \<and> ResponseStatus (CORSMiddleware_Handle m pending ctx) = Some 204
     \<and> Aborted (CORSMiddleware_Handle m pending ctx)
     \<and> Next pending (CORSMiddleware_Handle m pending ctx) = CORSMiddleware_Handle m pending ctx"
  proof
    assume o: "Method ctx = ''OPTIONS''"
    have e: "CORSMiddleware_Handle m pending ctx = CORSMiddleware_Handle m [] ctx"
      using o Handle_no_pending [of m pending ctx] by simp
    show "CORSMiddleware_Handle m pending ctx = CORSMiddleware_Handle m [] ctx
     \<and> ResponseStatus (CORSMiddleware_Handle m pending ctx) = Some 204
     \<and> Aborted (CORSMiddleware_Handle m pending ctx)
     \<and> Next pending (CORSMiddleware_Handle m pending ctx) = CORSMiddleware_Handle m pending ctx"
      using e Handle_status(1,2) [OF o, of m] by (simp add: Next_aborted)
  qed
  have other: "Method ctx \<noteq> ''OPTIONS'' \<longrightarrow>
       CORSMiddleware_Handle m pending ctx = Next pending (CORSMiddleware_Handle m [] ctx)
     \<and> ResponseStatus (CORSMiddleware_Handle m [] ctx) = ResponseStatus ctx
     \<and> Aborted (CORSMiddleware_Handle m [] ctx) = Aborted ctx"
    using Handle_no_pending [of m pending ctx] Handle_status(3,4) [of ctx m] by simp
  have same: "ResponseHeader (CORSMiddleware_Handle m [] ctx)
       = ResponseHeader (CORSMiddleware_Handle m [] (ctx\<lparr> Method := ''OPTIONS'' \<rparr>))"
    by (simp add: Handle_headers_any_method)
  from pre other same Handle_headers(1,3) [of m ctx] show ?thesis
    by blast
qed

lemma m_app_origins: "allowOrigins m_app = [''https://app.example'']"
  by (simp add: m_app_def NewCORSMiddleware_def)

text \<open>
  The witness of C8: a preflight request and a GET request from the allowed origin, with
  a handler pending that would answer 200. The preflight ends with 204 and no body; the
  GET reaches the handler; both carry the origin in Access-Control-Allow-Origin.
\<close>

theorem CORS_Handle_preflight_and_headers_witness:
  "ResponseStatus (CORSMiddleware_Handle m_app [ok_handler] (preflight ''https://app.example'')) = Some 204
   \<and> ResponseBody (CORSMiddleware_Handle m_app [ok_handler] (preflight ''https://app.example'')) = None
   \<and> ResponseHeader (CORSMiddleware_Handle m_app [ok_handler] (preflight ''https://app.example''))
        ''Access-Control-Allow-Origin'' = Some ''https://app.example''
   \<and> ResponseHeader (CORSMiddleware_Handle m_app [ok_handler] (preflight ''https://app.example''))
        ''Access-Control-Max-Age'' = Some ''86400''
   \<and> ResponseStatus (CORSMiddleware_Handle m_app [ok_handler]
        ((preflight ''https://app.example'')\<lparr> Method := ''GET'' \<rparr>)) = Some 200
   \<and> ResponseHeader (CORSMiddleware_Handle m_app [ok_handler]
        ((preflight ''https://app.example'')\<lparr> Method := ''GET'' \<rparr>))
        ''Access-Control-Allow-Origin'' = Some ''https://app.example''"
proof -
  let ?p = "preflight ''https://app.example''"
  let ?g = "?p\<lparr> Method := ''GET'' \<rparr>"
  have mp: "Method ?p = ''OPTIONS''" by (simp add: preflight_def)
  have mg: "Method ?g \<noteq> ''OPTIONS''" by simp
  have o: "GetHeader ?p ''Origin'' = ''https://app.example''"
          "GetHeader ?g ''Origin'' = ''https://app.example''"
    by (simp_all add: preflight_def GetHeader_def)
  have b: "ResponseBody (CORSMiddleware_Handle m_app [] ?p) = None"
    by (simp add: CORSMiddleware_Handle_def Let_def Header_def AbortWithStatus_def
        preflight_def ctx_empty_def)
  have na: "\<not> Aborted (CORSMiddleware_Handle m_app [] ?g)"
    using Handle_status(4) [OF mg, of m_app] by (simp add: preflight_def ctx_empty_def)
  have n: "ResponseStatus (Next [ok_handler] (CORSMiddleware_Handle m_app [] ?g)) = Some 200"
          "ResponseHeader (Next [ok_handler] (CORSMiddleware_Handle m_app [] ?g))
             = ResponseHeader (CORSMiddleware_Handle m_app [] ?g)"
    using na by (simp_all add: ok_handler_def Success_def JSON_def)
  note t1 = CORS_Handle_preflight_and_headers [of ?p m_app "[ok_handler]"]
  note t2 = CORS_Handle_preflight_and_headers [of ?g m_app "[ok_handler]"]
  from t1 mp have e1: "CORSMiddleware_Handle m_app [ok_handler] ?p = CORSMiddleware_Handle m_app [] ?p"
    and c1: "ResponseStatus (CORSMiddleware_Handle m_app [ok_handler] ?p) = Some 204"
    by blast+
  from t1 have h1: "ResponseHeader (CORSMiddleware_Handle m_app [] ?p) ''Access-Control-Max-Age''
                      = Some ''86400''"
    by blast
  from t1 have "ResponseHeader (CORSMiddleware_Handle m_app [] ?p) ''Access-Control-Allow-Origin''
       = (if GetHeader ?p ''Origin'' \<noteq> ''''
             \<and> (''*'' \<in> set (allowOrigins m_app) \<or> GetHeader ?p ''Origin'' \<in> set (allowOrigins m_app))
          then Some (GetHeader ?p ''Origin'')
          else if allowOrigins m_app = [''*''] then Some ''*''
          else ResponseHeader ?p ''Access-Control-Allow-Origin'')"
    by blast
  then have a1: "ResponseHeader (CORSMiddleware_Handle m_app [] ?p) ''Access-Control-Allow-Origin''
               = Some ''https://app.example''"
    by (simp add: o m_app_origins)
  from t2 mg have e2: "CORSMiddleware_Handle m_app [ok_handler] ?g
                         = Next [ok_handler] (CORSMiddleware_Handle m_app [] ?g)"
    by blast
  from t2 have "ResponseHeader (CORSMiddleware_Handle m_app [] ?g) ''Access-Control-Allow-Origin''
       = (if GetHeader ?g ''Origin'' \<noteq> ''''
             \<and> (''*'' \<in> set (allowOrigins m_app) \<or> GetHeader ?g ''Origin'' \<in> set (allowOrigins m_app))
          then Some (GetHeader ?g ''Origin'')
          else if allowOrigins m_app = [''*''] then Some ''*''
          else ResponseHeader ?g ''Access-Control-Allow-Origin'')"
    by blast
  then have a2: "ResponseHeader (CORSMiddleware_Handle m_app [] ?g) ''Access-Control-Allow-Origin''
               = Some ''https://app.example''"
    by (simp add: o m_app_origins)
  have c2: "ResponseBody (CORSMiddleware_Handle m_app [ok_handler] ?p) = None"
    by (simp only: e1 b)
  have c3: "ResponseHeader (CORSMiddleware_Handle m_app [ok_handler] ?p)
              ''Access-Control-Allow-Origin'' = Some ''https://app.example''"
    by (simp only: e1 a1)
  have c4: "ResponseHeader (CORSMiddleware_Handle m_app [ok_handler] ?p)
              ''Access-Control-Max-Age'' = Some ''86400''"
    by (simp only: e1 h1)
  have c5: "ResponseStatus (CORSMiddleware_Handle m_app [ok_handler] ?g) = Some 200"
    by (simp only: e2 n)
  have c6: "ResponseHeader (CORSMiddleware_Handle m_app [ok_handler] ?g)
              ''Access-Control-Allow-Origin'' = Some ''https://app.example''"
    by (simp only: e2 n a2)
  from c1 c2 c3 c4 c5 c6 show ?thesis by blast
qed

text \<open>
  C8 as it was stated fails on a preflight request from an origin that the allow-list
  does not hold: the middleware answers 204 and has set no Access-Control-Allow-Origin
  header at all.
\<close>

theorem CORS_preflight_disallowed_origin_counterexample:
  "Method (preflight ''https://evil.example'') = ''OPTIONS''
   \<and> ResponseStatus (CORSMiddleware_Handle m_app [] (preflight ''https://evil.example'')) = Some 204
   \<and> ResponseHeader (CORSMiddleware_Handle m_app [] (preflight ''https://evil.example''))
        ''Access-Control-Allow-Origin'' = None"
  by (simp add: CORSMiddleware_Handle_def Let_def Header_def AbortWithStatus_def
      preflight_def ctx_empty_def GetHeader_def isOriginAllowed_def m_app_origins)

section \<open>Properties of the checksum\<close>

text \<open>The printed digest has two characters for each of its 20 bytes, each of them a
  lowercase hexadecimal digit.\<close>

lemma length_hex: "length (hex bs) = 2 * length bs"
  by (induction bs) simp_all

lemma length_sha1_Sum: "length (sha1_Sum msg) = 20"
  by (simp add: sha1_Sum_def bytes_of32_def split: prod.splits)

lemma hex_digit_lower: "n < 16 \<Longrightarrow> hex_digit n \<in> set ''0123456789abcdef''"
  unfolding hex_digit_def by (rule nth_mem) simp

lemma hex_lower: "list_all (\<lambda>c. c \<in> set ''0123456789abcdef'') (hex bs)"
proof (induction bs)
  case Nil
  show ?case by simp
next
  case (Cons b bs)
  have "unat b < 256" using unsigned_less [of b] by simp
  then have "unat b div 16 < 16" by simp
  moreover have "unat b mod 16 < 16" by simp
  ultimately show ?case using Cons hex_digit_lower by simp
qed

text \<open>
  Running the digest. A rotation to the left is a shift to the left joined with a shift
  to the right; the schedule and the rounds are unfolded one step at a time, every new
  word reduced to its numeral below \<open>2^32\<close>.
\<close>

lemma rotl32:
  fixes w :: "32 word"
  assumes n: "0 < n" "n < 32"
  shows "word_rotl n w = push_bit n w OR drop_bit (32 - n) w"
proof (rule bit_word_eqI)
  fix k assume "k < LENGTH(32)"
  then have k: "k < 32" by simp
  have l: "bit (word_rotl n w) k = bit w ((k + (32 - n)) mod 32)"
    using k n by (simp add: bit_word_rotl_iff)
  show "bit (word_rotl n w) k = bit (push_bit n w OR drop_bit (32 - n) w) k"
  proof (cases "k < n")
    case True
    then have "(k + (32 - n)) mod 32 = 32 - n + k" using n by simp
    with True k n l show ?thesis by (simp add: bit_or_iff bit_push_bit_iff bit_drop_bit_eq)
  next
    case False
    then have "(k + (32 - n)) mod 32 = k - n" using k n by (simp add: mod_if)
    moreover have "\<not> bit w (32 - n + k)"
    proof
      assume "bit w (32 - n + k)"
      then have "32 - n + k < LENGTH(32)" by (rule bit_imp_le_length)
      with False n show False by simp
    qed
    ultimately show ?thesis using False k n l
      by (simp add: bit_or_iff bit_push_bit_iff bit_drop_bit_eq)
  qed
qed

lemma rot_1: "word_rotl (Suc 0) (w :: 32 word) = push_bit 1 w OR drop_bit 31 w"
  using rotl32 [of 1 w] by simp

lemma rot_5: "word_rotl 5 (w :: 32 word) = push_bit 5 w OR drop_bit 27 w"
  using rotl32 [of 5 w] by simp

lemma rot_30: "word_rotl 30 (w :: 32 word) = push_bit 30 w OR drop_bit 2 w"
  using rotl32 [of 30 w] by simp

lemma norm32_id: "norm32 x = x"
  by (simp add: norm32_def)

lemma norm32_numeral: "norm32 (numeral n) = word_of_int (take_bit 32 (numeral n))"
  unfolding norm32_def by (simp only: uint_bintrunc) simp

lemma norm32_zero: "norm32 0 = 0"
  by (simp add: norm32_def)

lemma norm32_one: "norm32 1 = 1"
  by (simp add: norm32_def)

lemma replicate_numeral: "replicate (numeral v) x = x # replicate (numeral v - 1) x"
  by (simp add: numeral_eq_Suc)

lemma blocks_of_numeral:
  "blocks_of (numeral v) bs = take 64 bs # blocks_of (numeral v - 1) (drop 64 bs)"
  by (simp add: numeral_eq_Suc)

lemma expand_step:
  "0 < n \<Longrightarrow> expand n r =
     expand (n - 1)
       (norm32 (word_rotl 1 (r ! 2 XOR r ! 7 XOR r ! 13 XOR r ! 15)) # r)"
  by (cases n) (simp_all add: norm32_id)

lemma round_steps:
  "i < 20 \<Longrightarrow> rounds i (w # ws) (a, b, c, d, e) =
     rounds (Suc i) ws
       (norm32 (word_rotl 5 a + ((b AND c) OR (NOT b AND d)) + e + w + 0x5A827999),
        a, norm32 (word_rotl 30 b), c, d)"
  "20 \<le> i \<Longrightarrow> i < 40 \<Longrightarrow> rounds i (w # ws) (a, b, c, d, e) =
     rounds (Suc i) ws
       (norm32 (word_rotl 5 a + (b XOR c XOR d) + e + w + 0x6ED9EBA1),
        a, norm32 (word_rotl 30 b), c, d)"
  "40 \<le> i \<Longrightarrow> i < 60 \<Longrightarrow> rounds i (w # ws) (a, b, c, d, e) =
     rounds (Suc i) ws
       (norm32 (word_rotl 5 a + (((b OR c) AND d) OR (b AND c)) + e + w + 0x8F1BBCDC),
        a, norm32 (word_rotl 30 b), c, d)"
  "60 \<le> i \<Longrightarrow> rounds i (w # ws) (a, b, c, d, e) =
     rounds (Suc i) ws
       (norm32 (word_rotl 5 a + (b XOR c XOR d) + e + w + 0xCA62C1D6),
        a, norm32 (word_rotl 30 b), c, d)"
  by (simp_all add: norm32_id Let_def)

lemma upt_0_8: "[0 ..< 8] = [0, 1, 2, 3, 4, 5, 6, 7]"
  by (simp add: upt_rec)

text \<open>
  Known answers. The digests of the empty message, of "abc" and of the 56-byte message
  of FIPS 180 (two blocks after padding), and of "cba", each computed stage by stage:
  the padded message, the schedule of each block, its 80 rounds, the state after the
  block, the 20 bytes of the digest and their 40 hexadecimal digits.
\<close>

lemma kat_empty_padded:
  "padded [] =
     [128, 0, 0, 0, 0, 0, 0, 0, 0, 0, 0, 0, 0, 0, 0, 0,
      0, 0, 0, 0, 0, 0, 0, 0, 0, 0, 0, 0, 0, 0, 0, 0,
      0, 0, 0, 0, 0, 0, 0, 0, 0, 0, 0, 0, 0, 0, 0, 0,
      0, 0, 0, 0, 0, 0, 0, 0, 0, 0, 0, 0, 0, 0, 0, 0]"
  by (simp add: padded_def bytes_of64_def replicate_numeral upt_0_8)

lemma kat_empty_schedule_1:
  "schedule [128, 0, 0, 0, 0, 0, 0, 0, 0, 0, 0, 0, 0, 0, 0, 0,
            0, 0, 0, 0, 0, 0, 0, 0, 0, 0, 0, 0, 0, 0, 0, 0,
            0, 0, 0, 0, 0, 0, 0, 0, 0, 0, 0, 0, 0, 0, 0, 0,
            0, 0, 0, 0, 0, 0, 0, 0, 0, 0, 0, 0, 0, 0, 0, 0] =
     [2147483648, 0, 0, 0, 0, 0,
      0, 0, 0, 0, 0, 0,
      0, 0, 0, 0, 1, 0,
      0, 2, 0, 0, 4, 0,
      2, 8, 0, 0, 16, 0,
      10, 32, 6, 0, 64, 8,
      40, 128, 8, 0, 264, 0,
      160, 512, 100, 0, 1032, 136,
      668, 2048, 128, 40, 4232, 0,
      2624, 8192, 1640, 128, 16520, 2176,
      10440, 32768, 2216, 128, 67816, 0,
      40960, 131200, 25600, 0, 264192, 34816,
      171024, 524288, 32896, 10272, 1083584, 0,
      671936, 2097280]"
  by (simp add: schedule_def be32_def expand_step rot_1 norm32_numeral norm32_zero norm32_one)

lemma kat_empty_rounds_1:
  "rounds 0 [2147483648, 0, 0, 0, 0, 0,
            0, 0, 0, 0, 0, 0,
            0, 0, 0, 0, 1, 0,
            0, 2, 0, 0, 4, 0,
            2, 8, 0, 0, 16, 0,
            10, 32, 6, 0, 64, 8,
            40, 128, 8, 0, 264, 0,
            160, 512, 100, 0, 1032, 136,
            668, 2048, 128, 40, 4232, 0,
            2624, 8192, 1640, 128, 16520, 2176,
            10440, 32768, 2216, 128, 67816, 0,
            40960, 131200, 25600, 0, 264192, 34816,
            171024, 524288, 32896, 10272, 1083584, 0,
            671936, 2097280]
     (1732584193, 4023233417, 2562383102, 271733878, 3285377520) =
     (1928626413, 1855823748, 2577064689, 2234369050, 3959760153)"
  by (simp add: round_steps rot_5 rot_30 norm32_numeral norm32_zero norm32_one
      del: rounds.simps(2))

lemma kat_empty_block_1:
  "block (1732584193, 4023233417, 2562383102, 271733878, 3285377520)
     [128, 0, 0, 0, 0, 0, 0, 0, 0, 0, 0, 0, 0, 0, 0, 0,
      0, 0, 0, 0, 0, 0, 0, 0, 0, 0, 0, 0, 0, 0, 0, 0,
      0, 0, 0, 0, 0, 0, 0, 0, 0, 0, 0, 0, 0, 0, 0, 0,
      0, 0, 0, 0, 0, 0, 0, 0, 0, 0, 0, 0, 0, 0, 0, 0] =
     (3661210606, 1584089869, 844480495, 2506102928, 2950170377)"
  by (simp only: block_def kat_empty_schedule_1 kat_empty_rounds_1) simp

lemma kat_empty_sum:
  "sha1_Sum [] =
     [218, 57, 163, 238, 94, 107, 75, 13, 50, 85,
      191, 239, 149, 96, 24, 144, 175, 216, 7, 9]"
  unfolding sha1_Sum_def kat_empty_padded
  by (simp add: blocks_of_numeral kat_empty_block_1 bytes_of32_def)

lemma kat_empty_sha1:
  "Sha1 '''' =
     ''da39a3ee5e6b4b0d3255bfef95601890afd80709''"
  by (simp add: Sha1_def kat_empty_sum hex_digit_def)

lemma kat_abc_padded:
  "padded [97, 98, 99] =
     [97, 98, 99, 128, 0, 0, 0, 0, 0, 0, 0, 0, 0, 0, 0, 0,
      0, 0, 0, 0, 0, 0, 0, 0, 0, 0, 0, 0, 0, 0, 0, 0,
      0, 0, 0, 0, 0, 0, 0, 0, 0, 0, 0, 0, 0, 0, 0, 0,
      0, 0, 0, 0, 0, 0, 0, 0, 0, 0, 0, 0, 0, 0, 0, 24]"
  by (simp add: padded_def bytes_of64_def replicate_numeral upt_0_8)

lemma kat_abc_schedule_1:
  "schedule [97, 98, 99, 128, 0, 0, 0, 0, 0, 0, 0, 0, 0, 0, 0, 0,
            0, 0, 0, 0, 0, 0, 0, 0, 0, 0, 0, 0, 0, 0, 0, 0,
            0, 0, 0, 0, 0, 0, 0, 0, 0, 0, 0, 0, 0, 0, 0, 0,
            0, 0, 0, 0, 0, 0, 0, 0, 0, 0, 0, 0, 0, 0, 0, 24] =
     [1633837952, 0, 0, 0, 0, 0,
      0, 0, 0, 0, 0, 0,
      0, 0, 0, 24, 3267675904, 0,
      48, 2240384513, 0, 96, 185801731, 48,
      2240384705, 371603462, 0, 384, 743206924, 240,
      2477765895, 1486413896, 2392494594, 1536, 2972827888, 371604422,
      1321128990, 1650688161, 371603462, 6336, 3537975492, 3840,
      989548665, 2307785957, 3803855915, 24768, 87701453, 1950713159,
      3667138029, 641206806, 1650688929, 1321161950, 943043659, 62976,
      512018339, 2564836760, 1696405152, 1650822305, 1166361814, 1146637495,
      2074109465, 1669377698, 182801001, 1652246945, 2094292125, 983040,
      4216354106, 3966199272, 3124505570, 6340608, 976735493, 1166362356,
      3092880854, 940186150, 31465987, 3888919638, 3873835881, 16124416,
      1469443919, 2184054905]"
  by (simp add: schedule_def be32_def expand_step rot_1 norm32_numeral norm32_zero norm32_one)

lemma kat_abc_rounds_1:
  "rounds 0 [1633837952, 0, 0, 0, 0, 0,
            0, 0, 0, 0, 0, 0,
            0, 0, 0, 24, 3267675904, 0,
            48, 2240384513, 0, 96, 185801731, 48,
            2240384705, 371603462, 0, 384, 743206924, 240,
            2477765895, 1486413896, 2392494594, 1536, 2972827888, 371604422,
            1321128990, 1650688161, 371603462, 6336, 3537975492, 3840,
            989548665, 2307785957, 3803855915, 24768, 87701453, 1950713159,
            3667138029, 641206806, 1650688929, 1321161950, 943043659, 62976,
            512018339, 2564836760, 1696405152, 1650822305, 1166361814, 1146637495,
            2074109465, 1669377698, 182801001, 1652246945, 2094292125, 983040,
            4216354106, 3966199272, 3124505570, 6340608, 976735493, 1166362356,
            3092880854, 940186150, 31465987, 3888919638, 3873835881, 16124416,
            1469443919, 2184054905]
     (1732584193, 4023233417, 2562383102, 271733878, 3285377520) =
     (1112808245, 1463342561, 562251891, 1746824694, 3640522413)"
  by (simp add: round_steps rot_5 rot_30 norm32_numeral norm32_zero norm32_one
      del: rounds.simps(2))

lemma kat_abc_block_1:
  "block (1732584193, 4023233417, 2562383102, 271733878, 3285377520)
     [97, 98, 99, 128, 0, 0, 0, 0, 0, 0, 0, 0, 0, 0, 0, 0,
      0, 0, 0, 0, 0, 0, 0, 0, 0, 0, 0, 0, 0, 0, 0, 0,
      0, 0, 0, 0, 0, 0, 0, 0, 0, 0, 0, 0, 0, 0, 0, 0,
      0, 0, 0, 0, 0, 0, 0, 0, 0, 0, 0, 0, 0, 0, 0, 24] =
     (2845392438, 1191608682, 3124634993, 2018558572, 2630932637)"
  by (simp only: block_def kat_abc_schedule_1 kat_abc_rounds_1) simp

lemma kat_abc_sum:
  "sha1_Sum [97, 98, 99] =
     [169, 153, 62, 54, 71, 6, 129, 106, 186, 62,
      37, 113, 120, 80, 194, 108, 156, 208, 216, 157]"
  unfolding sha1_Sum_def kat_abc_padded
  by (simp add: blocks_of_numeral kat_abc_block_1 bytes_of32_def)

lemma kat_abc_sha1:
  "Sha1 ''abc'' =
     ''a9993e364706816aba3e25717850c26c9cd0d89d''"
  by (simp add: Sha1_def kat_abc_sum hex_digit_def)

lemma kat_cba_padded:
  "padded [99, 98, 97] =
     [99, 98, 97, 128, 0, 0, 0, 0, 0, 0, 0, 0, 0, 0, 0, 0,
      0, 0, 0, 0, 0, 0, 0, 0, 0, 0, 0, 0, 0, 0, 0, 0,
      0, 0, 0, 0, 0, 0, 0, 0, 0, 0, 0, 0, 0, 0, 0, 0,
      0, 0, 0, 0, 0, 0, 0, 0, 0, 0, 0, 0, 0, 0, 0, 24]"
  by (simp add: padded_def bytes_of64_def replicate_numeral upt_0_8)

lemma kat_cba_schedule_1:
  "schedule [99, 98, 97, 128, 0, 0, 0, 0, 0, 0, 0, 0, 0, 0, 0, 0,
            0, 0, 0, 0, 0, 0, 0, 0, 0, 0, 0, 0, 0, 0, 0, 0,
            0, 0, 0, 0, 0, 0, 0, 0, 0, 0, 0, 0, 0, 0, 0, 0,
            0, 0, 0, 0, 0, 0, 0, 0, 0, 0, 0, 0, 0, 0, 0, 24] =
     [1667391872, 0, 0, 0, 0, 0,
      0, 0, 0, 0, 0, 0,
      0, 0, 0, 24, 3334783744, 0,
      48, 2374600193, 0, 96, 454233091, 48,
      2374600385, 908466182, 0, 384, 1816932364, 240,
      3148848391, 3633864776, 2526710274, 1536, 2972762353, 908467142,
      4005458974, 1650557091, 908466182, 6336, 4075100352, 3840,
      3136934011, 2307261677, 1924901930, 24768, 623515613, 1413981509,
      2862507495, 639109686, 1650557859, 4005557470, 410489865, 62976,
      514705290, 2556448024, 3305420473, 1650953379, 1686595028, 1148865685,
      1526941370, 1635822754, 2865230411, 1652115875, 3640129726, 983040,
      4191188922, 3831852522, 3148622450, 6340608, 706207013, 1202013396,
      4062828454, 403323430, 65150977, 1735177462, 2764392778, 16124416,
      2123810380, 36472955]"
  by (simp add: schedule_def be32_def expand_step rot_1 norm32_numeral norm32_zero norm32_one)

lemma kat_cba_rounds_1:
  "rounds 0 [1667391872, 0, 0, 0, 0, 0,
            0, 0, 0, 0, 0, 0,
            0, 0, 0, 24, 3334783744, 0,
            48, 2374600193, 0, 96, 454233091, 48,
            2374600385, 908466182, 0, 384, 1816932364, 240,
            3148848391, 3633864776, 2526710274, 1536, 2972762353, 908467142,
            4005458974, 1650557091, 908466182, 6336, 4075100352, 3840,
            3136934011, 2307261677, 1924901930, 24768, 623515613, 1413981509,
            2862507495, 639109686, 1650557859, 4005557470, 410489865, 62976,
            514705290, 2556448024, 3305420473, 1650953379, 1686595028, 1148865685,
            1526941370, 1635822754, 2865230411, 1652115875, 3640129726, 983040,
            4191188922, 3831852522, 3148622450, 6340608, 706207013, 1202013396,
            4062828454, 403323430, 65150977, 1735177462, 2764392778, 16124416,
            2123810380, 36472955]
     (1732584193, 4023233417, 2562383102, 271733878, 3285377520) =
     (1923820958, 3357217268, 3012593023, 4002723734, 1244600644)"
  by (simp add: round_steps rot_5 rot_30 norm32_numeral norm32_zero norm32_one
      del: rounds.simps(2))

lemma kat_cba_block_1:
  "block (1732584193, 4023233417, 2562383102, 271733878, 3285377520)
     [99, 98, 97, 128, 0, 0, 0, 0, 0, 0, 0, 0, 0, 0, 0, 0,
      0, 0, 0, 0, 0, 0, 0, 0, 0, 0, 0, 0, 0, 0, 0, 0,
      0, 0, 0, 0, 0, 0, 0, 0, 0, 0, 0, 0, 0, 0, 0, 0,
      0, 0, 0, 0, 0, 0, 0, 0, 0, 0, 0, 0, 0, 0, 0, 24] =
     (3656405151, 3085483389, 1280008829, 4274457612, 235010868)"
  by (simp only: block_def kat_cba_schedule_1 kat_cba_rounds_1) simp

lemma kat_cba_sum:
  "sha1_Sum [99, 98, 97] =
     [217, 240, 80, 159, 183, 232, 189, 125, 76, 75,
      98, 125, 254, 199, 12, 12, 14, 1, 251, 52]"
  unfolding sha1_Sum_def kat_cba_padded
  by (simp add: blocks_of_numeral kat_cba_block_1 bytes_of32_def)

lemma kat_cba_sha1:
  "Sha1 ''cba'' =
     ''d9f0509fb7e8bd7d4c4b627dfec70c0c0e01fb34''"
  by (simp add: Sha1_def kat_cba_sum hex_digit_def)

lemma kat_long_padded:
  "padded [97, 98, 99, 100, 98, 99, 100, 101, 99, 100, 101, 102,
          100, 101, 102, 103, 101, 102, 103, 104, 102, 103, 104, 105,
          103, 104, 105, 106, 104, 105, 106, 107, 105, 106, 107, 108,
          106, 107, 108, 109, 107, 108, 109, 110, 108, 109, 110, 111,
          109, 110, 111, 112, 110, 111, 112, 113] =
     [97, 98, 99, 100, 98, 99, 100, 101, 99, 100, 101, 102, 100, 101, 102, 103,
      101, 102, 103, 104, 102, 103, 104, 105, 103, 104, 105, 106, 104, 105, 106, 107,
      105, 106, 107, 108, 106, 107, 108, 109, 107, 108, 109, 110, 108, 109, 110, 111,
      109, 110, 111, 112, 110, 111, 112, 113, 128, 0, 0, 0, 0, 0, 0, 0,
      0, 0, 0, 0, 0, 0, 0, 0, 0, 0, 0, 0, 0, 0, 0, 0,
      0, 0, 0, 0, 0, 0, 0, 0, 0, 0, 0, 0, 0, 0, 0, 0,
      0, 0, 0, 0, 0, 0, 0, 0, 0, 0, 0, 0, 0, 0, 0, 0,
      0, 0, 0, 0, 0, 0, 0, 0, 0, 0, 0, 0, 0, 0, 1, 192]"
  by (simp add: padded_def bytes_of64_def replicate_numeral upt_0_8)

lemma kat_long_schedule_1:
  "schedule [97, 98, 99, 100, 98, 99, 100, 101, 99, 100, 101, 102, 100, 101, 102, 103,
            101, 102, 103, 104, 102, 103, 104, 105, 103, 104, 105, 106, 104, 105, 106, 107,
            105, 106, 107, 108, 106, 107, 108, 109, 107, 108, 109, 110, 108, 109, 110, 111,
            109, 110, 111, 112, 110, 111, 112, 113, 128, 0, 0, 0, 0, 0, 0, 0] =
     [1633837924, 1650680933, 1667523942, 1684366951, 1701209960, 1718052969,
      1734895978, 1751738987, 1768581996, 1785425005, 1802268014, 1819111023,
      1835954032, 1852797041, 2147483648, 0, 168180286, 3638222047,
      3671908032, 3369252030, 1869970267, 1971018087, 2376166768, 3673094842,
      4210477750, 2801493850, 207637704, 1615642668, 1237378786, 787008444,
      3486985924, 2548662542, 160025576, 4064822270, 1547751610, 2832845883,
      2998494830, 3128652215, 548571762, 2995451136, 2328393794, 681238004,
      1456807713, 3647700946, 946399096, 2875082824, 2131632408, 3733430545,
      3904788144, 436921938, 3444969928, 1190078940, 1624496749, 3723737710,
      657978857, 1216915216, 3533772667, 2576966459, 3603340547, 3438678651,
      2086207085, 4258897000, 4175634548, 3770301565, 354523350, 2067732866,
      938661303, 2241212990, 2164756694, 3198200130, 298312113, 1633210625,
      1607301081, 2133791462, 4167618481, 3605633001, 4112955474, 3075968460,
      1440325108, 536254808]"
  by (simp add: schedule_def be32_def expand_step rot_1 norm32_numeral norm32_zero norm32_one)

lemma kat_long_rounds_1:
  "rounds 0 [1633837924, 1650680933, 1667523942, 1684366951, 1701209960, 1718052969,
            1734895978, 1751738987, 1768581996, 1785425005, 1802268014, 1819111023,
            1835954032, 1852797041, 2147483648, 0, 168180286, 3638222047,
            3671908032, 3369252030, 1869970267, 1971018087, 2376166768, 3673094842,
            4210477750, 2801493850, 207637704, 1615642668, 1237378786, 787008444,
            3486985924, 2548662542, 160025576, 4064822270, 1547751610, 2832845883,
            2998494830, 3128652215, 548571762, 2995451136, 2328393794, 681238004,
            1456807713, 3647700946, 946399096, 2875082824, 2131632408, 3733430545,
            3904788144, 436921938, 3444969928, 1190078940, 1624496749, 3723737710,
            657978857, 1216915216, 3533772667, 2576966459, 3603340547, 3438678651,
            2086207085, 4258897000, 4175634548, 3770301565, 354523350, 2067732866,
            938661303, 2241212990, 2164756694, 3198200130, 298312113, 1633210625,
            1607301081, 2133791462, 4167618481, 3605633001, 4112955474, 3075968460,
            1440325108, 536254808]
     (1732584193, 4023233417, 2562383102, 271733878, 3285377520) =
     (2363704599, 3551362085, 1800280195, 1949637842, 2256765826)"
  by (simp add: round_steps rot_5 rot_30 norm32_numeral norm32_zero norm32_one
      del: rounds.simps(2))

lemma kat_long_block_1:
  "block (1732584193, 4023233417, 2562383102, 271733878, 3285377520)
     [97, 98, 99, 100, 98, 99, 100, 101, 99, 100, 101, 102, 100, 101, 102, 103,
      101, 102, 103, 104, 102, 103, 104, 105, 103, 104, 105, 106, 104, 105, 106, 107,
      105, 106, 107, 108, 106, 107, 108, 109, 107, 108, 109, 110, 108, 109, 110, 111,
      109, 110, 111, 112, 110, 111, 112, 113, 128, 0, 0, 0, 0, 0, 0, 0] =
     (4096288792, 3279628206, 67696001, 2221371720, 1247176050)"
  by (simp only: block_def kat_long_schedule_1 kat_long_rounds_1) simp

lemma kat_long_schedule_2:
  "schedule [0, 0, 0, 0, 0, 0, 0, 0, 0, 0, 0, 0, 0, 0, 0, 0,
            0, 0, 0, 0, 0, 0, 0, 0, 0, 0, 0, 0, 0, 0, 0, 0,
            0, 0, 0, 0, 0, 0, 0, 0, 0, 0, 0, 0, 0, 0, 0, 0,
            0, 0, 0, 0, 0, 0, 0, 0, 0, 0, 0, 0, 0, 0, 1, 192] =
     [0, 0, 0, 0, 0, 0,
      0, 0, 0, 0, 0, 0,
      0, 0, 0, 448, 0, 0,
      896, 0, 0, 1792, 0, 896,
      3584, 0, 0, 7168, 0, 3456,
      14336, 1152, 0, 28672, 3584, 13824,
      57344, 3584, 0, 118272, 0, 55296,
      229376, 20224, 0, 462336, 60928, 226560,
      917504, 57344, 13824, 1895936, 0, 913408,
      3670016, 312832, 57344, 7400960, 974848, 3579392,
      14680064, 972288, 57344, 30320128, 0, 14155776,
      58777600, 5177344, 0, 118358016, 15597568, 58006528,
      234881024, 14737408, 3553280, 485396480, 0, 233869312,
      939581440, 80180224]"
  by (simp add: schedule_def be32_def expand_step rot_1 norm32_numeral norm32_zero norm32_one)

lemma kat_long_rounds_2:
  "rounds 0 [0, 0, 0, 0, 0, 0,
            0, 0, 0, 0, 0, 0,
            0, 0, 0, 448, 0, 0,
            896, 0, 0, 1792, 0, 896,
            3584, 0, 0, 7168, 0, 3456,
            14336, 1152, 0, 28672, 3584, 13824,
            57344, 3584, 0, 118272, 0, 55296,
            229376, 20224, 0, 462336, 60928, 226560,
            917504, 57344, 13824, 1895936, 0, 913408,
            3670016, 312832, 57344, 7400960, 974848, 3579392,
            14680064, 972288, 57344, 30320128, 0, 14155776,
            58777600, 5177344, 0, 118358016, 15597568, 58006528,
            234881024, 14737408, 3553280, 485396480, 0, 233869312,
            939581440, 80180224]
     (4096288792, 3279628206, 67696001, 2221371720, 1247176050) =
     (2423248428, 1489021632, 3064288544, 1961474205, 2599422847)"
  by (simp add: round_steps rot_5 rot_30 norm32_numeral norm32_zero norm32_one
      del: rounds.simps(2))

lemma kat_long_block_2:
  "block (4096288792, 3279628206, 67696001, 2221371720, 1247176050)
     [0, 0, 0, 0, 0, 0, 0, 0, 0, 0, 0, 0, 0, 0, 0, 0,
      0, 0, 0, 0, 0, 0, 0, 0, 0, 0, 0, 0, 0, 0, 0, 0,
      0, 0, 0, 0, 0, 0, 0, 0, 0, 0, 0, 0, 0, 0, 0, 0,
      0, 0, 0, 0, 0, 0, 0, 0, 0, 0, 0, 0, 0, 0, 1, 192] =
     (2224569924, 473682542, 3131984545, 4182845925, 3846598897)"
  by (simp only: block_def kat_long_schedule_2 kat_long_rounds_2) simp

lemma kat_long_sum:
  "sha1_Sum [97, 98, 99, 100, 98, 99, 100, 101, 99, 100, 101, 102,
            100, 101, 102, 103, 101, 102, 103, 104, 102, 103, 104, 105,
            103, 104, 105, 106, 104, 105, 106, 107, 105, 106, 107, 108,
            106, 107, 108, 109, 107, 108, 109, 110, 108, 109, 110, 111,
            109, 110, 111, 112, 110, 111, 112, 113] =
     [132, 152, 62, 68, 28, 59, 210, 110, 186, 174,
      74, 161, 249, 81, 41, 229, 229, 70, 112, 241]"
  unfolding sha1_Sum_def kat_long_padded
  by (simp add: blocks_of_numeral kat_long_block_1 kat_long_block_2 bytes_of32_def)

lemma kat_long_sha1:
  "Sha1 ''abcdbcdecdefdefgefghfghighijhijkijkljklmklmnlmnomnopnopq'' =
     ''84983e441c3bd26ebaae4aa1f95129e5e54670f1''"
  by (simp add: Sha1_def kat_long_sum hex_digit_def)


text \<open>
  C10. For every checksum, timestamp, nonce and secret: ValidateCheckSum is true if and
  only if the checksum is the lowercase hexadecimal SHA-1 digest of secret, nonce and
  timestamp concatenated in this order; the digest of that concatenation is always
  accepted, and it is a string of 40 lowercase hexadecimal digits. The digest is the
  SHA-1 of the standard: Sha1 gives da39a3ee5e6b4b0d3255bfef95601890afd80709 for the
  empty string, a9993e364706816aba3e25717850c26c9cd0d89d for "abc" and
  84983e441c3bd26ebaae4aa1f95129e5e54670f1 for the two-block message. So with secret
  "a", nonce "b" and timestamp "c" the checksum a9993e36...d89d is accepted, the same
  digits in upper case are refused, and so is that checksum when secret and timestamp
  change places.
\<close>

theorem ValidateCheckSum_iff_sha1_hex:
  "(ValidateCheckSum checksum timestamp nonce secret
      \<longleftrightarrow> checksum = hex (sha1_Sum (map of_char (secret @ nonce @ timestamp))))
   \<and> ValidateCheckSum (Sha1 (secret @ nonce @ timestamp)) timestamp nonce secret
   \<and> length (Sha1 (secret @ nonce @ timestamp)) = 40
   \<and> list_all (\<lambda>c. c \<in> set ''0123456789abcdef'') (Sha1 (secret @ nonce @ timestamp))
   \<and> Sha1 '''' = ''da39a3ee5e6b4b0d3255bfef95601890afd80709''
   \<and> Sha1 ''abc'' = ''a9993e364706816aba3e25717850c26c9cd0d89d''
   \<and> Sha1 ''abcdbcdecdefdefgefghfghighijhijkijkljklmklmnlmnomnopnopq''
        = ''84983e441c3bd26ebaae4aa1f95129e5e54670f1''
   \<and> ValidateCheckSum ''a9993e364706816aba3e25717850c26c9cd0d89d'' ''c'' ''b'' ''a''
   \<and> \<not> ValidateCheckSum ''A9993E364706816ABA3E25717850C26C9CD0D89D'' ''c'' ''b'' ''a''
   \<and> \<not> ValidateCheckSum ''a9993e364706816aba3e25717850c26c9cd0d89d'' ''a'' ''b'' ''c''"
proof -
  have a: "ValidateCheckSum checksum timestamp nonce secret
      \<longleftrightarrow> checksum = hex (sha1_Sum (map of_char (secret @ nonce @ timestamp)))"
    unfolding ValidateCheckSum_def Sha1_def Let_def by (rule eq_commute)
  have b: "ValidateCheckSum (Sha1 (secret @ nonce @ timestamp)) timestamp nonce secret"
    by (simp add: ValidateCheckSum_def)
  have c: "length (Sha1 (secret @ nonce @ timestamp)) = 40"
    by (simp add: Sha1_def length_hex length_sha1_Sum)
  have d: "list_all (\<lambda>c. c \<in> set ''0123456789abcdef'') (Sha1 (secret @ nonce @ timestamp))"
    unfolding Sha1_def by (rule hex_lower)
  have e: "ValidateCheckSum ''a9993e364706816aba3e25717850c26c9cd0d89d'' ''c'' ''b'' ''a''"
    by (simp add: ValidateCheckSum_def kat_abc_sha1)
  have f: "\<not> ValidateCheckSum ''A9993E364706816ABA3E25717850C26C9CD0D89D'' ''c'' ''b'' ''a''"
    by (simp add: ValidateCheckSum_def kat_abc_sha1)
  have g: "\<not> ValidateCheckSum ''a9993e364706816aba3e25717850c26c9cd0d89d'' ''a'' ''b'' ''c''"
    by (simp add: ValidateCheckSum_def kat_cba_sha1)
  from a b c d e f g kat_empty_sha1 kat_abc_sha1 kat_long_sha1 show ?thesis by blast
qed

end
